theory Spec2Isabelle
  imports Complex_Main "HOL-Library.AList"
begin

section \<open>Python values, errors and containers\<close>

text \<open>
  The simulator is written in Python.  Exceptions are modelled as values of the type
  \<open>error\<close>; a function that may raise returns \<open>error + 'a\<close>, with \<open>Inl\<close> for the exception.
  Floats are modelled as reals: every product and quotient below is written in the order
  in which the source evaluates it.
\<close>

datatype error =
    KeyError
  | IndexError
  | TypeError
  | ValueError
  | UnboundLocalError
  | AttributeError
  | ZeroDivisionError

text \<open>
  Dynamically typed values.  \<open>PNum\<close> stands for both \<open>int\<close> and \<open>float\<close> (Python compares
  and hashes \<open>1\<close> and \<open>1.0\<close> alike).  \<open>PList\<close> and \<open>PDict\<close> are lists and dictionaries that
  are never mutated after they have been built (a dictionary is an association list in
  insertion order); \<open>PRef\<close> is the address of a mutable object of the heap of the event
  tree; \<open>PNuc\<close> is a reference to the \<open>Nucleotide\<close> object at that index of
  \<open>nt_sequence\<close>.
\<close>

datatype pyval =
    PNone
  | PNum real
  | PStr string
  | PTuple "pyval list"
  | PList "pyval list"
  | PDict "(pyval \<times> pyval) list"
  | PRef nat
  | PNuc nat

definition ebind :: "error + 'a \<Rightarrow> ('a \<Rightarrow> error + 'b) \<Rightarrow> error + 'b" where
  "ebind m f = (case m of Inl e \<Rightarrow> Inl e | Inr x \<Rightarrow> f x)"

text \<open>\<open>xs[start:stop]\<close>: negative bounds count from the end, bounds outside are clipped.\<close>

definition py_slice :: "'a list \<Rightarrow> int \<Rightarrow> int \<Rightarrow> 'a list" where
  "py_slice xs start stop =
     (let n = int (length xs);
          lo = (if start < 0 then max (start + n) 0 else min start n);
          hi = (if stop < 0 then max (stop + n) 0 else min stop n)
      in take (nat (hi - lo)) (drop (nat lo) xs))"

text \<open>\<open>xs[i]\<close>: a negative index counts from the end, an index outside raises.\<close>

definition py_index :: "'a list \<Rightarrow> int \<Rightarrow> error + 'a" where
  "py_index xs i =
     (if 0 \<le> i \<and> i < int (length xs) then Inr (xs ! nat i)
      else if i < 0 \<and> - int (length xs) \<le> i then Inr (xs ! nat (int (length xs) + i))
      else Inl IndexError)"

text \<open>\<open>d[k]\<close> on a dictionary kept as an association list.\<close>

definition dict_get :: "('k \<times> 'v) list \<Rightarrow> 'k \<Rightarrow> error + 'v" where
  "dict_get d k = (case map_of d k of None \<Rightarrow> Inl KeyError | Some v \<Rightarrow> Inr v)"

text \<open>\<open>s.startswith(c)\<close> for a one-character prefix.\<close>

definition startswith :: "string \<Rightarrow> char \<Rightarrow> bool" where
  "startswith s c = (case s of [] \<Rightarrow> False | x # _ \<Rightarrow> x = c)"

section \<open>Module constants\<close>

datatype base = A | C | G | T

definition NUCLEOTIDES :: "base list" where
  "NUCLEOTIDES = [A, C, G, T]"

fun TRANSITIONS_DICT :: "base \<Rightarrow> base" where
  "TRANSITIONS_DICT A = G"
| "TRANSITIONS_DICT G = A"
| "TRANSITIONS_DICT T = C"
| "TRANSITIONS_DICT C = T"

text \<open>The entries of \<open>COMPLEMENT_DICT\<close> for the four nucleotides.\<close>

fun COMPLEMENT_DICT :: "base \<Rightarrow> base" where
  "COMPLEMENT_DICT A = T"
| "COMPLEMENT_DICT C = G"
| "COMPLEMENT_DICT G = C"
| "COMPLEMENT_DICT T = A"

text \<open>
  The genetic code, in the order of the source.  The two entries \<open>'---'\<close> and \<open>'XXX'\<close> are
  left out: no string of nucleotide states equals them.
\<close>

definition CODON_DICT :: "(base list \<times> char) list" where
  "CODON_DICT =
    [([T,T,T], CHR ''F''), ([T,T,C], CHR ''F''), ([T,T,A], CHR ''L''), ([T,T,G], CHR ''L''),
     ([T,C,T], CHR ''S''), ([T,C,C], CHR ''S''), ([T,C,A], CHR ''S''), ([T,C,G], CHR ''S''),
     ([T,A,T], CHR ''Y''), ([T,A,C], CHR ''Y''), ([T,A,A], CHR ''*''), ([T,A,G], CHR ''*''),
     ([T,G,T], CHR ''C''), ([T,G,C], CHR ''C''), ([T,G,A], CHR ''*''), ([T,G,G], CHR ''W''),
     ([C,T,T], CHR ''L''), ([C,T,C], CHR ''L''), ([C,T,A], CHR ''L''), ([C,T,G], CHR ''L''),
     ([C,C,T], CHR ''P''), ([C,C,C], CHR ''P''), ([C,C,A], CHR ''P''), ([C,C,G], CHR ''P''),
     ([C,A,T], CHR ''H''), ([C,A,C], CHR ''H''), ([C,A,A], CHR ''Q''), ([C,A,G], CHR ''Q''),
     ([C,G,T], CHR ''R''), ([C,G,C], CHR ''R''), ([C,G,A], CHR ''R''), ([C,G,G], CHR ''R''),
     ([A,T,T], CHR ''I''), ([A,T,C], CHR ''I''), ([A,T,A], CHR ''I''), ([A,T,G], CHR ''M''),
     ([A,C,T], CHR ''T''), ([A,C,C], CHR ''T''), ([A,C,A], CHR ''T''), ([A,C,G], CHR ''T''),
     ([A,A,T], CHR ''N''), ([A,A,C], CHR ''N''), ([A,A,A], CHR ''K''), ([A,A,G], CHR ''K''),
     ([A,G,T], CHR ''S''), ([A,G,C], CHR ''S''), ([A,G,A], CHR ''R''), ([A,G,G], CHR ''R''),
     ([G,T,T], CHR ''V''), ([G,T,C], CHR ''V''), ([G,T,A], CHR ''V''), ([G,T,G], CHR ''V''),
     ([G,C,T], CHR ''A''), ([G,C,C], CHR ''A''), ([G,C,A], CHR ''A''), ([G,C,G], CHR ''A''),
     ([G,A,T], CHR ''D''), ([G,A,C], CHR ''D''), ([G,A,A], CHR ''E''), ([G,A,G], CHR ''E''),
     ([G,G,T], CHR ''G''), ([G,G,C], CHR ''G''), ([G,G,A], CHR ''G''), ([G,G,G], CHR ''G'')]"

section \<open>The data model: ORFs, codons, nucleotides, the sequence\<close>

text \<open>
  One entry of the ORF table.  \<open>orf_map\<close> is whatever sequence of 0/1 the caller supplies:
  the source converts it with \<open>tuple(...)\<close> and \<open>list(...)\<close> in some places and uses it
  as it is in others, so its Python type matters and it is kept as a \<open>pyval\<close>.
\<close>

record orf_info =
  coords :: "(int \<times> int) list"
  omega_shape :: real
  omega_classes :: nat
  omega_values :: "real list"
  orf_map :: pyval

text \<open>
  A \<open>Codon\<close> holds references to three \<open>Nucleotide\<close> objects.  A \<open>Nucleotide\<close> object is
  identified by its index in \<open>nt_sequence\<close>, so the references are indices.
\<close>

record codon =
  frame :: string
  orf :: orf_info
  nts_in_codon :: "nat list"

record nucleotide =
  state :: base
  pos_in_seq :: nat
  codons :: "codon list"
  complement_state :: base
  rates :: "base \<rightharpoonup> real option"
  omega_keys :: "base \<rightharpoonup> pyval"
  cat_keys :: "base \<rightharpoonup> string"
  omega_in_event_tree :: "base \<rightharpoonup> pyval"
  mutation_rate :: real

text \<open>Mutable objects of the event tree: dictionaries and lists, addressed by index.\<close>

datatype pyobj = ODict "(pyval \<times> pyval) list" | OList "pyval list"

record sequence =
  orfs :: "(string \<times> orf_info list) list option"
  kappa :: real
  global_rate :: real
  pi_freq :: "base \<rightharpoonup> real"
  cat_values :: "(string \<times> real) list"
  is_circular :: bool
  nt_sequence :: "nucleotide list"
  codons_all :: "codon list"
  total_omegas :: "(pyval \<times> real) list"
  seq_orf_map :: "(int list \<times> pyval) list"
  event_tree :: pyval
  heap :: "pyobj list"

text \<open>\<open>Nucleotide.__init__\<close>.\<close>

definition Nucleotide :: "base \<Rightarrow> nat \<Rightarrow> nucleotide" where
  "Nucleotide st pos =
     \<lparr> state = st, pos_in_seq = pos, codons = [],
       complement_state = COMPLEMENT_DICT st,
       rates = Map.empty, omega_keys = Map.empty, cat_keys = Map.empty,
       omega_in_event_tree = Map.empty, mutation_rate = 0 \<rparr>"

section \<open>Neighbours\<close>

text \<open>
  \<open>Sequence.get_right_nt\<close>.  A Python function that reaches its end without \<open>return\<close>
  returns \<open>None\<close>: that is the result \<open>Inr None\<close>.
\<close>

definition get_right_nt :: "sequence \<Rightarrow> int \<Rightarrow> error + nucleotide option" where
  "get_right_nt S pos =
     (if is_circular S then
        (if pos = int (length (nt_sequence S)) - 1
         then map_sum id Some (py_index (nt_sequence S) 0)
         else Inr None)
      else map_sum id Some (py_index (nt_sequence S) (pos + 1)))"

text \<open>\<open>Sequence.get_left_nt\<close>.\<close>

definition get_left_nt :: "sequence \<Rightarrow> int \<Rightarrow> error + nucleotide option" where
  "get_left_nt S pos =
     (if pos = 0 then
        (if is_circular S then map_sum id Some (py_index (nt_sequence S) (- 1))
         else Inr None)
      else map_sum id Some (py_index (nt_sequence S) (pos - 1)))"

section \<open>Codon resolution\<close>

text \<open>The loop \<open>for i in range(3, len(cds)+1, 3): ... cds[(i-3):i]\<close>: the complete triples.\<close>

fun triples :: "'a list \<Rightarrow> 'a list list" where
  "triples (a # b # c # rest) = [a, b, c] # triples rest"
| "triples _ = []"

text \<open>
  \<open>Sequence.find_codons\<close>.  The slice \<open>nt_sequence[start:stop]\<close> is a list of references;
  the reference to the object at index \<open>i\<close> is \<open>i\<close>, so the model slices the index list.
  \<open>spliced_cds\<close> is the list \<open>cds\<close> after the loop over \<open>orf['coords']\<close>.  The source
  has no \<open>raise\<close> here and a slice never raises, so the result is always \<open>Inr\<close>.
\<close>

definition spliced_cds :: "sequence \<Rightarrow> orf_info \<Rightarrow> nat list" where
  "spliced_cds S orf_i =
     concat (map (\<lambda>(start, stop). py_slice [0..<length (nt_sequence S)] start stop)
               (coords orf_i))"

definition find_codons :: "sequence \<Rightarrow> string \<Rightarrow> orf_info \<Rightarrow> error + codon list" where
  "find_codons S frm orf_i =
     (let cds = spliced_cds S orf_i;
          cds' = (if startswith frm CHR ''-'' then rev cds else cds)
      in Inr (map (\<lambda>t. \<lparr> frame = frm, orf = orf_i, nts_in_codon = t \<rparr>) (triples cds')))"

text \<open>\<open>Sequence.complement\<close> (a static method), on the four nucleotides.\<close>

definition complement :: "base list \<Rightarrow> bool \<Rightarrow> base list" where
  "complement seq rv = map COMPLEMENT_DICT (if rv then rev seq else seq)"




section \<open>The codon model\<close>

text \<open>\<open>''.join(str(nt) for nt in self.nts_in_codon)\<close>: the current states of the three
  nucleotides, in the order of the references.\<close>

definition codon_str :: "sequence \<Rightarrow> codon \<Rightarrow> base list" where
  "codon_str S c = map (\<lambda>p. state (nt_sequence S ! p)) (nts_in_codon c)"

text \<open>\<open>Codon.nt_in_pos\<close>: the first index holding the very object \<open>query_nt\<close>, else \<open>None\<close>.\<close>

fun index_of :: "nat list \<Rightarrow> nat \<Rightarrow> nat \<Rightarrow> nat option" where
  "index_of [] q i = None"
| "index_of (p # ps) q i = (if q = p then Some i else index_of ps q (Suc i))"

definition nt_in_pos :: "codon \<Rightarrow> nat \<Rightarrow> nat option" where
  "nt_in_pos c query_nt = index_of (nts_in_codon c) query_nt 0"

text \<open>\<open>Codon.mutate_codon\<close>: \<open>mutated_codon[pos_in_codon] = to_nt\<close> raises \<open>TypeError\<close>
  for the index \<open>None\<close> and \<open>IndexError\<close> outside the list.\<close>

definition mutate_codon :: "sequence \<Rightarrow> codon \<Rightarrow> nat option \<Rightarrow> base \<Rightarrow> error + (base list \<times> base list)" where
  "mutate_codon S c pos_in_codon to_nt =
     (let cod = codon_str S c in
      case pos_in_codon of
        None \<Rightarrow> Inl TypeError
      | Some i \<Rightarrow> if i < length cod then Inr (cod, cod[i := to_nt]) else Inl IndexError)"

definition is_nonsyn :: "sequence \<Rightarrow> codon \<Rightarrow> nat option \<Rightarrow> base \<Rightarrow> error + bool" where
  "is_nonsyn S c pos_in_codon to_nt =
     ebind (mutate_codon S c pos_in_codon to_nt) (\<lambda>(cod, mutated).
     ebind (dict_get CODON_DICT mutated) (\<lambda>aa_new.
     ebind (dict_get CODON_DICT cod) (\<lambda>aa_old.
       Inr (aa_new \<noteq> aa_old))))"

definition creates_stop :: "sequence \<Rightarrow> codon \<Rightarrow> nat option \<Rightarrow> base \<Rightarrow> error + bool" where
  "creates_stop S c pos_in_codon to_nt =
     ebind (mutate_codon S c pos_in_codon to_nt) (\<lambda>(cod, mutated).
     ebind (dict_get CODON_DICT mutated) (\<lambda>aa_new.
       Inr (aa_new = CHR ''*'')))"

text \<open>\<open>Codon.is_start\<close>: \<open>and\<close> evaluates its right operand only for the codon \<open>ATG\<close>.\<close>

definition is_start :: "sequence \<Rightarrow> codon \<Rightarrow> error + bool" where
  "is_start S c =
     (if codon_str S c = [A, T, G] then
        (case nts_in_codon c of
           [] \<Rightarrow> Inl IndexError
         | p # _ \<Rightarrow>
            (case coords (orf c) of
               [] \<Rightarrow> Inl IndexError
             | (start, stop) # _ \<Rightarrow>
                 if startswith (frame c) CHR ''+''
                 then Inr (int (pos_in_seq (nt_sequence S ! p)) = start)
                 else Inr (int (pos_in_seq (nt_sequence S ! p)) + 1 = stop)))
      else Inr False)"

definition is_stop :: "sequence \<Rightarrow> codon \<Rightarrow> bool" where
  "is_stop S c =
     (codon_str S c = [T, A, A] \<or> codon_str S c = [T, G, A] \<or> codon_str S c = [T, A, G])"

text \<open>\<open>Sequence.is_start_stop_codon\<close>: \<open>codon_start_stop\<close> is the condition of its
  \<open>if\<close> (\<open>or\<close> stops at the first true operand); the first codon that answers yes ends
  the loop.\<close>

definition codon_start_stop :: "sequence \<Rightarrow> nat \<Rightarrow> base \<Rightarrow> codon \<Rightarrow> error + bool" where
  "codon_start_stop S nt to_nt c =
     (if is_stop S c then Inr True
      else ebind (is_start S c) (\<lambda>st.
        if st then Inr True
        else creates_stop S c (nt_in_pos c nt) to_nt))"

fun start_stop_loop :: "sequence \<Rightarrow> nat \<Rightarrow> base \<Rightarrow> codon list \<Rightarrow> error + bool" where
  "start_stop_loop S nt to_nt [] = Inr False"
| "start_stop_loop S nt to_nt (c # cs) =
     (case codon_start_stop S nt to_nt c of
        Inl e \<Rightarrow> Inl e
      | Inr True \<Rightarrow> Inr True
      | Inr False \<Rightarrow> start_stop_loop S nt to_nt cs)"

definition is_start_stop_codon :: "sequence \<Rightarrow> nat \<Rightarrow> base \<Rightarrow> error + bool" where
  "is_start_stop_codon S nt to_nt =
     start_stop_loop S nt to_nt (codons (nt_sequence S ! nt))"

text \<open>\<open>Sequence.is_transv\<close>: \<open>None\<close> for equal bases.\<close>

definition is_transv :: "base \<Rightarrow> base \<Rightarrow> bool option" where
  "is_transv from_nt to_nt =
     (if from_nt = to_nt then None
      else if TRANSITIONS_DICT from_nt = to_nt then Some False else Some True)"

section \<open>Helpers for dynamically typed values\<close>

text \<open>A loop whose body may raise: the first exception ends it.\<close>

fun efold :: "('a \<Rightarrow> 's \<Rightarrow> error + 's) \<Rightarrow> 'a list \<Rightarrow> 's \<Rightarrow> error + 's" where
  "efold f [] s = Inr s"
| "efold f (x # xs) s = (case f x s of Inl e \<Rightarrow> Inl e | Inr s' \<Rightarrow> efold f xs s')"

text \<open>Hashable values: a dictionary, a list and (the mutable objects behind) a reference
  are not; a tuple is when its elements are.\<close>

fun hashable :: "pyval \<Rightarrow> bool" where
  "hashable PNone = True"
| "hashable (PNum x) = True"
| "hashable (PStr s) = True"
| "hashable (PTuple xs) = list_all hashable xs"
| "hashable (PList xs) = False"
| "hashable (PDict d) = False"
| "hashable (PRef r) = False"
| "hashable (PNuc n) = True"

text \<open>\<open>tuple(x)\<close> and \<open>list(x)\<close> for the values an ORF table can hold (it holds no
  reference into the event tree).\<close>

fun py_elems :: "pyval \<Rightarrow> error + pyval list" where
  "py_elems (PTuple xs) = Inr xs"
| "py_elems (PList xs) = Inr xs"
| "py_elems (PStr s) = Inr (map (\<lambda>c. PStr [c]) s)"
| "py_elems (PDict d) = Inr (map fst d)"
| "py_elems v = Inl TypeError"

definition py_tuple :: "pyval \<Rightarrow> error + pyval" where
  "py_tuple v = map_sum id PTuple (py_elems v)"

definition py_list :: "pyval \<Rightarrow> error + pyval" where
  "py_list v = map_sum id PList (py_elems v)"

text \<open>\<open>d[k] = v\<close> on a dictionary: an unhashable key raises \<open>TypeError\<close>; an existing key
  keeps its place, a new one goes last.\<close>

definition dict_set :: "(pyval \<times> pyval) list \<Rightarrow> pyval \<Rightarrow> pyval \<Rightarrow> error + (pyval \<times> pyval) list" where
  "dict_set d k v = (if hashable k then Inr (AList.update k v d) else Inl TypeError)"

text \<open>
  The random number generator is a parameter: \<open>rng k\<close> is the \<open>k\<close>-th raw draw, and a
  counter is threaded through the calls.  \<open>random.randrange(n)\<close> raises \<open>ValueError\<close> for
  \<open>n = 0\<close>, \<open>random.choice(xs)\<close> raises \<open>IndexError\<close> for an empty list.
\<close>

definition randrange :: "(nat \<Rightarrow> nat) \<Rightarrow> nat \<Rightarrow> nat \<Rightarrow> error + (nat \<times> nat)" where
  "randrange rng k n = (if n = 0 then Inl ValueError else Inr (rng k mod n, Suc k))"

definition choice :: "(nat \<Rightarrow> nat) \<Rightarrow> nat \<Rightarrow> 'a list \<Rightarrow> error + ('a \<times> nat)" where
  "choice rng k xs = (if xs = [] then Inl IndexError else Inr (xs ! (rng k mod length xs), Suc k))"

section \<open>Substitution rates of a nucleotide\<close>

text \<open>The body of \<open>for codon in nt.codons\<close> in \<open>set_substitution_rates\<close>; the state is
  the dictionary \<open>chosen_omegas\<close> and the counter of the generator.\<close>

definition chosen_omegas_step ::
  "sequence \<Rightarrow> (nat \<Rightarrow> nat) \<Rightarrow> nat \<Rightarrow> base \<Rightarrow> codon \<Rightarrow>
     (pyval \<times> pyval) list \<times> nat \<Rightarrow> error + ((pyval \<times> pyval) list \<times> nat)" where
  "chosen_omegas_step S rng nt to_nt c st =
     (let chosen_omegas = fst st; k = snd st in
      ebind (is_start_stop_codon S nt to_nt) (\<lambda>ss.
        if \<not> ss then
          ebind (is_nonsyn S c (nt_in_pos c nt) to_nt) (\<lambda>ns.
            if ns then
              ebind (randrange rng k (length (omega_values (orf c)))) (\<lambda>(omega_index, k').
              ebind (py_tuple (orf_map (orf c))) (\<lambda>key.
              ebind (dict_set chosen_omegas key (PNum (real omega_index))) (\<lambda>d.
                Inr (d, k'))))
            else
              ebind (dict_set chosen_omegas (orf_map (orf c)) PNone) (\<lambda>d. Inr (d, k)))
        else
          ebind (dict_set chosen_omegas (orf_map (orf c)) (PStr ''Stop_start'')) (\<lambda>d.
            Inr (d, k))))"

text \<open>The local variables of \<open>set_substitution_rates\<close>.  \<open>chosen_omegas\<close> is bound only once
  the branch \<open>if nt.codons:\<close> has run: \<open>None\<close> here is the unbound variable.\<close>

record rates_acc =
  sub_rates :: "base \<rightharpoonup> real option"
  selected_omega :: "base \<rightharpoonup> pyval"
  my_cat_keys :: "base \<rightharpoonup> string"
  chosen_omegas :: "(pyval \<times> pyval) list option"
  rng_pos :: nat

text \<open>The body of \<open>for to_nt in NUCLEOTIDES\<close> in \<open>set_substitution_rates\<close>.\<close>

definition rates_step ::
  "sequence \<Rightarrow> (nat \<Rightarrow> nat) \<Rightarrow> nat \<Rightarrow> base \<Rightarrow> rates_acc \<Rightarrow> error + rates_acc" where
  "rates_step S rng nt to_nt acc =
     (let current_nt = state (nt_sequence S ! nt) in
      if to_nt = current_nt then
        Inr (acc\<lparr> sub_rates := (sub_rates acc)(to_nt \<mapsto> None),
                  selected_omega := (selected_omega acc)(to_nt \<mapsto> PNone) \<rparr>)
      else
        ebind (case pi_freq S current_nt of None \<Rightarrow> Inl KeyError
               | Some f \<Rightarrow> Inr (global_rate S * f)) (\<lambda>r0.
        let r1 = (if is_transv current_nt to_nt = Some True then r0 * kappa S else r0) in
        ebind (if codons (nt_sequence S ! nt) \<noteq> []
               then map_sum id (\<lambda>(d, k). (Some d, k))
                      (efold (chosen_omegas_step S rng nt to_nt)
                         (codons (nt_sequence S ! nt)) ([], rng_pos acc))
               else Inr (chosen_omegas acc, rng_pos acc)) (\<lambda>(ch, k).
        case ch of
          None \<Rightarrow> Inl UnboundLocalError
        | Some d \<Rightarrow>
            ebind (choice rng k (map fst (cat_values S))) (\<lambda>(selected_cat, k').
            ebind (dict_get (cat_values S) selected_cat) (\<lambda>mu.
              Inr \<lparr> sub_rates = (sub_rates acc)(to_nt \<mapsto> Some (r1 * mu)),
                    selected_omega = (selected_omega acc)(to_nt \<mapsto> PDict d),
                    my_cat_keys = (my_cat_keys acc)(to_nt \<mapsto> selected_cat),
                    chosen_omegas = Some d,
                    rng_pos = k' \<rparr>)))))"

text \<open>\<open>Nucleotide.get_mutation_rate\<close>: the sum of the rates that are neither \<open>None\<close> nor
  zero (\<open>if value:\<close>).\<close>

definition get_mutation_rate :: "nucleotide \<Rightarrow> real" where
  "get_mutation_rate n =
     fold (\<lambda>to_nt total_rate.
            case rates n to_nt of
              Some (Some v) \<Rightarrow> (if v \<noteq> 0 then total_rate + v else total_rate)
            | _ \<Rightarrow> total_rate)
          NUCLEOTIDES 0"

text \<open>\<open>Sequence.set_substitution_rates\<close>; \<open>nt\<close> is the index of the nucleotide, \<open>k\<close> the
  counter of the generator; the result is the sequence with that nucleotide updated, and
  the new counter.\<close>

definition set_substitution_rates ::
  "sequence \<Rightarrow> (nat \<Rightarrow> nat) \<Rightarrow> nat \<Rightarrow> nat \<Rightarrow> error + (sequence \<times> nat)" where
  "set_substitution_rates S rng nt k =
     ebind (efold (rates_step S rng nt) NUCLEOTIDES
              \<lparr> sub_rates = Map.empty, selected_omega = Map.empty, my_cat_keys = Map.empty,
                chosen_omegas = None, rng_pos = k \<rparr>) (\<lambda>acc.
       let n = nt_sequence S ! nt;
           n1 = n\<lparr> rates := sub_rates acc, cat_keys := my_cat_keys acc,
                   omega_keys := selected_omega acc \<rparr>;
           n2 = n1\<lparr> mutation_rate := get_mutation_rate n1 \<rparr>
       in Inr (S\<lparr> nt_sequence := (nt_sequence S)[nt := n2] \<rparr>, rng_pos acc))"

section \<open>Building the nucleotides and the codons\<close>

definition make_nucleotides :: "base list \<Rightarrow> nucleotide list" where
  "make_nucleotides str_sequence =
     map (\<lambda>(pos, b). Nucleotide b pos) (enumerate 0 str_sequence)"

text \<open>\<open>for nt in codon.nts_in_codon: nt.codons.append(codon)\<close>.\<close>

definition attach_codon :: "codon \<Rightarrow> nucleotide list \<Rightarrow> nucleotide list" where
  "attach_codon c nts =
     fold (\<lambda>p ns. ns[p := (ns ! p)\<lparr> codons := codons (ns ! p) @ [c] \<rparr>]) (nts_in_codon c) nts"

text \<open>The loops of \<open>__init__\<close> over the ORF table: the codons of every ORF are attached to
  their nucleotides and appended to \<open>__codons\<close>.\<close>

definition set_codons_orf :: "string \<Rightarrow> orf_info \<Rightarrow> sequence \<Rightarrow> error + sequence" where
  "set_codons_orf frm orf_i S =
     ebind (find_codons S frm orf_i) (\<lambda>cs.
       Inr (fold (\<lambda>c S'. S'\<lparr> nt_sequence := attach_codon c (nt_sequence S'),
                              codons_all := codons_all S' @ [c] \<rparr>) cs S))"

definition set_codons :: "sequence \<Rightarrow> error + sequence" where
  "set_codons S =
     (case orfs S of
        None \<Rightarrow> Inr S
      | Some table \<Rightarrow>
          efold (\<lambda>entry. efold (set_codons_orf (fst entry)) (snd entry)) table S)"

section \<open>The heap of the event tree\<close>

text \<open>
  The event tree is a nest of dictionaries that the source shares and updates in place, so
  its dictionaries and lists live in a heap: a list of objects, an object's address being
  its index.  Every dictionary and list of the tree is a heap object; the by-value
  constructors \<open>PDict\<close> and \<open>PList\<close> stand for objects nothing updates (the \<open>orf_map\<close>
  of the ORF table, the \<open>chosen_omegas\<close> stored in a nucleotide).
\<close>

definition heap_get :: "pyobj list \<Rightarrow> nat \<Rightarrow> pyobj option" where
  "heap_get h r = (if r < length h then Some (h ! r) else None)"

definition alloc :: "pyobj list \<Rightarrow> pyobj \<Rightarrow> pyval \<times> pyobj list" where
  "alloc h ob = (PRef (length h), h @ [ob])"

fun base_str :: "base \<Rightarrow> string" where
  "base_str A = ''A''"
| "base_str C = ''C''"
| "base_str G = ''G''"
| "base_str T = ''T''"

definition base_of_key :: "pyval \<Rightarrow> base option" where
  "base_of_key v =
     (if v = PStr ''A'' then Some A else if v = PStr ''C'' then Some C
      else if v = PStr ''G'' then Some G else if v = PStr ''T'' then Some T else None)"

text \<open>\<open>xs[key]\<close> on a list, tuple or string: the key must be an integer.\<close>

definition seq_index :: "pyval list \<Rightarrow> pyval \<Rightarrow> error + pyval" where
  "seq_index xs key =
     (case key of
        PNum x \<Rightarrow> if x = of_int \<lfloor>x\<rfloor> then py_index xs \<lfloor>x\<rfloor> else Inl TypeError
      | _ \<Rightarrow> Inl TypeError)"

definition dict_lookup :: "(pyval \<times> pyval) list \<Rightarrow> pyval \<Rightarrow> error + pyval" where
  "dict_lookup d key = (if hashable key then dict_get d key else Inl TypeError)"

text \<open>\<open>v[key]\<close>.  \<open>None\<close>, a number and a \<open>Nucleotide\<close> are not subscriptable.\<close>

fun py_getitem :: "pyobj list \<Rightarrow> pyval \<Rightarrow> pyval \<Rightarrow> error + pyval" where
  "py_getitem h (PRef r) key =
     (case heap_get h r of
        Some (ODict d) \<Rightarrow> dict_lookup d key
      | Some (OList xs) \<Rightarrow> seq_index xs key
      | None \<Rightarrow> Inl TypeError)"
| "py_getitem h (PDict d) key = dict_lookup d key"
| "py_getitem h (PTuple xs) key = seq_index xs key"
| "py_getitem h (PList xs) key = seq_index xs key"
| "py_getitem h (PStr s) key = seq_index (map (\<lambda>c. PStr [c]) s) key"
| "py_getitem h v key = Inl TypeError"

text \<open>\<open>v[k1][k2]...\<close>, from left to right.\<close>

definition py_path :: "pyobj list \<Rightarrow> pyval \<Rightarrow> pyval list \<Rightarrow> error + pyval" where
  "py_path h v keys = efold (\<lambda>key w. py_getitem h w key) keys v"

text \<open>\<open>v[key] = x\<close> on an object of the heap.\<close>

definition py_setitem :: "pyobj list \<Rightarrow> pyval \<Rightarrow> pyval \<Rightarrow> pyval \<Rightarrow> error + pyobj list" where
  "py_setitem h v key x =
     (case v of
        PRef r \<Rightarrow>
          (case heap_get h r of
             Some (ODict d) \<Rightarrow>
               if hashable key then Inr (h[r := ODict (AList.update key x d)]) else Inl TypeError
           | Some (OList xs) \<Rightarrow>
               (case key of
                  PNum i \<Rightarrow>
                    if i = of_int \<lfloor>i\<rfloor> then
                      (let n = int (length xs); j = (if \<lfloor>i\<rfloor> < 0 then n + \<lfloor>i\<rfloor> else \<lfloor>i\<rfloor>)
                       in if 0 \<le> j \<and> j < n then Inr (h[r := OList (xs[nat j := x])])
                          else Inl IndexError)
                    else Inl TypeError
                | _ \<Rightarrow> Inl TypeError)
           | None \<Rightarrow> Inl TypeError)
      | _ \<Rightarrow> Inl TypeError)"

text \<open>\<open>v.update({k1: x1, ...})\<close>: only a dictionary has the method.\<close>

definition py_update :: "pyobj list \<Rightarrow> pyval \<Rightarrow> (pyval \<times> pyval) list \<Rightarrow> error + pyobj list" where
  "py_update h v kvs =
     (case v of
        PRef r \<Rightarrow>
          (case heap_get h r of
             Some (ODict d) \<Rightarrow>
               if list_all (\<lambda>kv. hashable (fst kv)) kvs
               then Inr (h[r := ODict (fold (\<lambda>kv d'. AList.update (fst kv) (snd kv) d') kvs d)])
               else Inl TypeError
           | _ \<Rightarrow> Inl AttributeError)
      | _ \<Rightarrow> Inl AttributeError)"

text \<open>\<open>v.items()\<close> and \<open>v.keys()\<close>, as the list the loop over them walks.\<close>

definition py_items :: "pyobj list \<Rightarrow> pyval \<Rightarrow> error + (pyval \<times> pyval) list" where
  "py_items h v =
     (case v of
        PRef r \<Rightarrow> (case heap_get h r of Some (ODict d) \<Rightarrow> Inr d | _ \<Rightarrow> Inl AttributeError)
      | PDict d \<Rightarrow> Inr d
      | _ \<Rightarrow> Inl AttributeError)"

definition py_keys :: "pyobj list \<Rightarrow> pyval \<Rightarrow> error + pyval list" where
  "py_keys h v = map_sum id (map fst) (py_items h v)"

text \<open>Truth value of a value: \<open>None\<close>, zero and the empty containers are false.\<close>

fun py_truth :: "pyobj list \<Rightarrow> pyval \<Rightarrow> bool" where
  "py_truth h PNone = False"
| "py_truth h (PNum x) = (x \<noteq> 0)"
| "py_truth h (PStr s) = (s \<noteq> [])"
| "py_truth h (PTuple xs) = (xs \<noteq> [])"
| "py_truth h (PList xs) = (xs \<noteq> [])"
| "py_truth h (PDict d) = (d \<noteq> [])"
| "py_truth h (PRef r) =
     (case heap_get h r of
        Some (ODict d) \<Rightarrow> d \<noteq> []
      | Some (OList xs) \<Rightarrow> xs \<noteq> []
      | None \<Rightarrow> True)"
| "py_truth h (PNuc n) = True"

text \<open>The elements a \<open>for\<close> loop, \<open>any\<close> or \<open>in\<close> walks through.\<close>

definition py_iter :: "pyobj list \<Rightarrow> pyval \<Rightarrow> error + pyval list" where
  "py_iter h v =
     (case v of
        PRef r \<Rightarrow>
          (case heap_get h r of
             Some (ODict d) \<Rightarrow> Inr (map fst d)
           | Some (OList xs) \<Rightarrow> Inr xs
           | None \<Rightarrow> Inl TypeError)
      | _ \<Rightarrow> py_elems v)"

definition py_any :: "pyobj list \<Rightarrow> pyval \<Rightarrow> error + bool" where
  "py_any h v = map_sum id (list_ex (py_truth h)) (py_iter h v)"

text \<open>\<open>x in v\<close>: a dictionary hashes \<open>x\<close>, a list or tuple compares it with its elements,
  a string accepts only a string.\<close>

definition py_contains :: "pyobj list \<Rightarrow> pyval \<Rightarrow> pyval \<Rightarrow> error + bool" where
  "py_contains h v x =
     (case v of
        PRef r \<Rightarrow>
          (case heap_get h r of
             Some (ODict d) \<Rightarrow> if hashable x then Inr (x \<in> set (map fst d)) else Inl TypeError
           | Some (OList xs) \<Rightarrow> Inr (x \<in> set xs)
           | None \<Rightarrow> Inl TypeError)
      | PDict d \<Rightarrow> if hashable x then Inr (x \<in> set (map fst d)) else Inl TypeError
      | PTuple xs \<Rightarrow> Inr (x \<in> set xs)
      | PList xs \<Rightarrow> Inr (x \<in> set xs)
      | PStr s \<Rightarrow>
          (case x of
             PStr t \<Rightarrow> Inr (list_ex (\<lambda>i. take (length t) (drop i s) = t) [0..<Suc (length s)])
           | _ \<Rightarrow> Inl TypeError)
      | _ \<Rightarrow> Inl TypeError)"

text \<open>\<open>v.append(x)\<close>: only a list has the method.\<close>

definition py_append :: "pyobj list \<Rightarrow> pyval \<Rightarrow> pyval \<Rightarrow> error + pyobj list" where
  "py_append h v x =
     (case v of
        PRef r \<Rightarrow>
          (case heap_get h r of
             Some (OList xs) \<Rightarrow> Inr (h[r := OList (xs @ [x])])
           | _ \<Rightarrow> Inl AttributeError)
      | _ \<Rightarrow> Inl AttributeError)"

text \<open>\<open>len(v)\<close>.\<close>

definition py_len :: "pyobj list \<Rightarrow> pyval \<Rightarrow> error + nat" where
  "py_len h v =
     (case v of
        PRef r \<Rightarrow>
          (case heap_get h r of
             Some (ODict d) \<Rightarrow> Inr (length d)
           | Some (OList xs) \<Rightarrow> Inr (length xs)
           | None \<Rightarrow> Inl TypeError)
      | PDict d \<Rightarrow> Inr (length d)
      | PTuple xs \<Rightarrow> Inr (length xs)
      | PList xs \<Rightarrow> Inr (length xs)
      | PStr s \<Rightarrow> Inr (length s)
      | _ \<Rightarrow> Inl TypeError)"

section \<open>The ORF map and the empty event tree\<close>

text \<open>\<open>Sequence.create_orf_map\<close>.  The key \<open>str([...])\<close> of the flattened coordinates is
  modelled by the flattened list itself (\<open>str\<close> is injective on lists of integers).
  \<open>self.orfs.items()\<close> raises \<open>AttributeError\<close> when \<open>orfs\<close> is \<open>None\<close>.\<close>

definition create_orf_map :: "sequence \<Rightarrow> error + (int list \<times> pyval) list" where
  "create_orf_map S =
     (case orfs S of
        None \<Rightarrow> Inl AttributeError
      | Some table \<Rightarrow>
          efold (\<lambda>orf_i m.
                   ebind (py_list (orf_map orf_i)) (\<lambda>v.
                     Inr (AList.update (concat (map (\<lambda>(s, e). [s, e]) (coords orf_i))) v m)))
                (concat (map snd table)) [])"

text \<open>The list comprehension \<open>[(nuc, {'from_nt': {}}) for nuc in NUCLEOTIDES]\<close>.\<close>

definition new_to_nt_entry ::
  "base \<Rightarrow> (pyval \<times> pyval) list \<times> pyobj list \<Rightarrow> (pyval \<times> pyval) list \<times> pyobj list" where
  "new_to_nt_entry nuc st =
     (let (f, h1) = alloc (snd st) (ODict []);
          (t, h2) = alloc h1 (ODict [(PStr ''from_nt'', f)])
      in (fst st @ [(PStr (base_str nuc), t)], h2))"

text \<open>One step of the dictionary comprehension
  \<open>{bin_code : {'omega':{}} for bin_code in ...}\<close>.\<close>

definition new_bin_entry ::
  "pyval \<Rightarrow> (pyval \<times> pyval) list \<times> pyobj list \<Rightarrow> error + ((pyval \<times> pyval) list \<times> pyobj list)" where
  "new_bin_entry bin_code st =
     (let (om, h1) = alloc (snd st) (ODict []);
          (layer, h2) = alloc h1 (ODict [(PStr ''omega'', om)])
      in ebind (dict_set (fst st) bin_code layer) (\<lambda>d. Inr (d, h2)))"

text \<open>The assignment \<open>event_tree['to_nt'][to_nt]['from_nt'][from_nt] = ...\<close> of the
  last loop of \<open>create_event_tree\<close>.\<close>

definition set_from_nt :: "pyval \<Rightarrow> pyval \<Rightarrow> base \<Rightarrow> base \<Rightarrow> pyobj list \<Rightarrow> error + pyobj list" where
  "set_from_nt tree cat_dict to_nt from_nt h =
     ebind (py_path h tree [PStr ''to_nt'', PStr (base_str to_nt), PStr ''from_nt'']) (\<lambda>fd.
       py_setitem h fd (PStr (base_str from_nt))
         (if from_nt = to_nt then PNone else cat_dict))"

text \<open>
  \<open>Sequence.create_event_tree\<close>.  \<open>bin_orf_layer\<close> and \<open>cat_dict\<close> are each allocated once:
  the comprehension \<open>{cat : bin_orf_layer for cat in ...}\<close> stores the one object
  \<open>bin_orf_layer\<close> under every category, and the last loop stores the one object
  \<open>cat_dict\<close> under every pair of distinct bases.
\<close>

definition create_event_tree :: "sequence \<Rightarrow> error + (pyval \<times> pyobj list)" where
  "create_event_tree S =
     (let (pairs, h1) = fold new_to_nt_entry NUCLEOTIDES ([], heap S);
          (to_d, h2) = alloc h1 (ODict pairs);
          (tree, h3) = alloc h2 (ODict [(PStr ''to_nt'', to_d)])
      in
      ebind (efold (\<lambda>v codes. ebind (py_tuple v) (\<lambda>t. Inr (codes @ [t])))
               (map snd (seq_orf_map S)) []) (\<lambda>bin_codes.
      ebind (efold new_bin_entry bin_codes ([], h3)) (\<lambda>(d, h4).
        let non_orf_tuple = PTuple (replicate (length d) (PNum 0));
            (nts, h5) = alloc h4 (OList []);
            (leaf, h6) = alloc h5 (ODict [(PStr ''nts'', nts)]);
            (bin_orf_layer, h7) = alloc h6 (ODict (AList.update non_orf_tuple leaf d));
            (cat_dict, h8) =
               alloc h7 (ODict (fold (\<lambda>cat cd. AList.update (PStr cat) bin_orf_layer cd)
                                  (map fst (cat_values S)) []))
        in ebind (efold (\<lambda>to_nt. efold (set_from_nt tree cat_dict to_nt) NUCLEOTIDES)
                    NUCLEOTIDES h8) (\<lambda>h9.
             Inr (tree, h9)))))"

section \<open>Placing a nucleotide in the event tree\<close>

text \<open>The body of \<open>for to_nt in NUCLEOTIDES\<close> in \<open>nt_in_event_tree\<close>.  The state is the
  heap, \<open>nt_omega_in_tree\<close> and \<open>new_omega_key\<close>.\<close>

definition nt_in_event_tree_step ::
  "sequence \<Rightarrow> nat \<Rightarrow> base \<Rightarrow>
     pyobj list \<times> (base \<rightharpoonup> pyval) \<times> (base \<times> pyval) list \<Rightarrow>
     error + (pyobj list \<times> (base \<rightharpoonup> pyval) \<times> (base \<times> pyval) list)" where
  "nt_in_event_tree_step S nt to_nt st =
     (let h = fst st; nt_omega_in_tree = fst (snd st); new_omega_key = snd (snd st);
          n = nt_sequence S ! nt; current_nt = state n in
      if to_nt \<noteq> current_nt then
        ebind (is_start_stop_codon S nt to_nt) (\<lambda>ss.
          if \<not> ss then
            ebind (case omega_keys n to_nt of None \<Rightarrow> Inl KeyError | Some v \<Rightarrow> Inr v) (\<lambda>omega_cat.
            ebind (case cat_keys n to_nt of None \<Rightarrow> Inl KeyError | Some c \<Rightarrow> Inr c) (\<lambda>category.
            ebind (py_path h (event_tree S)
                     [PStr ''to_nt'', PStr (base_str to_nt), PStr ''from_nt'',
                      PStr (base_str current_nt), PStr ''category'', PStr category,
                      PStr ''omega'']) (\<lambda>cat_branch.
              if py_truth h omega_cat then
                ebind (py_contains h cat_branch omega_cat) (\<lambda>present.
                  if present then
                    ebind (py_path h cat_branch [omega_cat, PStr ''nt'']) (\<lambda>nt_list.
                    ebind (py_contains h nt_list (PNuc nt)) (\<lambda>there.
                      if \<not> there then
                        ebind (py_append h nt_list (PNuc nt)) (\<lambda>h'.
                          Inr (h', nt_omega_in_tree(to_nt \<mapsto> omega_cat), new_omega_key))
                      else Inr (h, nt_omega_in_tree(to_nt \<mapsto> omega_cat), new_omega_key)))
                  else
                    (let (l, h1) = alloc h (OList [PNuc nt]);
                         (leaf, h2) = alloc h1 (ODict [(PStr ''nt'', l)])
                     in ebind (py_update h2 cat_branch [(omega_cat, leaf)]) (\<lambda>h3.
                          Inr (h3, nt_omega_in_tree(to_nt \<mapsto> omega_cat),
                               AList.update to_nt
                                 (PDict [(PStr ''cat'', PStr category),
                                         (PStr ''new_omega'', omega_cat)])
                                 new_omega_key))))
              else Inr st)))
          else Inr st)
      else Inr st)"

text \<open>\<open>Sequence.nt_in_event_tree\<close>: the updated sequence and the returned
  \<open>new_omega_key\<close>.\<close>

definition nt_in_event_tree :: "sequence \<Rightarrow> nat \<Rightarrow> error + (sequence \<times> (base \<times> pyval) list)" where
  "nt_in_event_tree S nt =
     ebind (efold (nt_in_event_tree_step S nt) NUCLEOTIDES (heap S, Map.empty, [])) (\<lambda>st.
       Inr (S\<lparr> heap := fst st,
                nt_sequence := (nt_sequence S)
                   [nt := (nt_sequence S ! nt)\<lparr> omega_in_event_tree := fst (snd st) \<rparr>] \<rparr>,
            snd (snd st)))"

section \<open>Probabilities of the branches\<close>

text \<open>\<open>omega[:-1]\<close>, \<open>omega[-1]\<close> and \<open>omega[-1] > 1\<close> for an element \<open>omega\<close> of a
  dictionary key (a hashable value, so never a list, a dictionary or a reference).\<close>

fun py_butlast :: "pyval \<Rightarrow> error + pyval" where
  "py_butlast (PTuple xs) = Inr (PTuple (butlast xs))"
| "py_butlast (PList xs) = Inr (PList (butlast xs))"
| "py_butlast (PStr s) = Inr (PStr (butlast s))"
| "py_butlast v = Inl TypeError"

fun py_last :: "pyval \<Rightarrow> error + pyval" where
  "py_last (PTuple xs) = (if xs = [] then Inl IndexError else Inr (last xs))"
| "py_last (PList xs) = (if xs = [] then Inl IndexError else Inr (last xs))"
| "py_last (PStr s) = (if s = [] then Inl IndexError else Inr (PStr [last s]))"
| "py_last v = Inl TypeError"

fun py_gt_one :: "pyval \<Rightarrow> error + bool" where
  "py_gt_one (PNum x) = Inr (x > 1)"
| "py_gt_one v = Inl TypeError"

fun py_add :: "pyval \<Rightarrow> real \<Rightarrow> error + pyval" where
  "py_add (PNum x) y = Inr (PNum (x + y))"
| "py_add v y = Inl TypeError"

definition py_div :: "real \<Rightarrow> real \<Rightarrow> error + real" where
  "py_div x y = (if y = 0 then Inl ZeroDivisionError else Inr (x / y))"

text \<open>The body of \<open>for nonsyn_val in nonsyn_values\<close> in \<open>compute_probability\<close>; the state
  is \<open>omega_p\<close>.\<close>

definition nonsyn_step ::
  "pyobj list \<Rightarrow> (pyval \<times> real) list \<Rightarrow> pyval \<Rightarrow> pyval \<Rightarrow> real \<Rightarrow> pyval \<Rightarrow> real \<Rightarrow> error + real" where
  "nonsyn_step h tot combo omega denominator nonsyn_val omega_p =
     ebind (py_any h nonsyn_val) (\<lambda>a.
     ebind (if a then map_sum id (\<lambda>l. l = PNum 0) (py_last omega) else Inr False) (\<lambda>c1.
     ebind (if c1 then ebind (dict_get tot combo) (\<lambda>t.
                         ebind (py_div t denominator) (\<lambda>q. Inr (omega_p * q)))
            else Inr omega_p) (\<lambda>p1.
     ebind (py_last omega) (\<lambda>l.
     ebind (py_gt_one l) (\<lambda>c2.
       if c2 then ebind (py_div 1 denominator) (\<lambda>q. Inr (p1 * q)) else Inr p1)))))"

text \<open>The body of \<open>for omega in combo\<close>; the state is \<open>nonsyn_values\<close> and \<open>omega_p\<close>.
  \<open>any(nonsyn_values)\<close> asks whether one of the slices is a non-empty tuple.\<close>

definition omega_step ::
  "pyobj list \<Rightarrow> (pyval \<times> real) list \<Rightarrow> pyval \<Rightarrow> pyval \<Rightarrow> pyval list \<times> real \<Rightarrow>
     error + (pyval list \<times> real)" where
  "omega_step h tot combo omega st =
     (let denominator = 1 + sum_list (map snd tot) in
      ebind (py_butlast omega) (\<lambda>sl.
      let nonsyn_values = fst st @ [sl] in
      ebind (py_any h omega) (\<lambda>a.
        if \<not> a then
          ebind (py_div 1 denominator) (\<lambda>q. Inr (nonsyn_values, q))
        else if list_ex (py_truth h) nonsyn_values then
          ebind (efold (nonsyn_step h tot combo omega denominator) nonsyn_values (snd st))
            (\<lambda>p. Inr (nonsyn_values, p))
        else
          ebind (py_div 1 denominator) (\<lambda>q. Inr (nonsyn_values, q)))))"

text \<open>The value \<open>omega_p\<close> that \<open>compute_probability\<close> stores as \<open>prob\<close> of the leaf
  \<open>combo\<close>.\<close>

definition omega_prob :: "pyobj list \<Rightarrow> (pyval \<times> real) list \<Rightarrow> pyval \<Rightarrow> error + real" where
  "omega_prob h tot combo =
     ebind (py_iter h combo) (\<lambda>omegas.
       map_sum id snd (efold (omega_step h tot combo) omegas ([], 1)))"

definition prob_events :: "real \<Rightarrow> (pyval \<times> pyval) list" where
  "prob_events p = [(PStr ''prob'', PNum p), (PStr ''number_of_events'', PNum 0)]"

definition branch_path :: "base \<Rightarrow> pyval \<Rightarrow> pyval list" where
  "branch_path to_nt from_key =
     [PStr ''to_nt'', PStr (base_str to_nt), PStr ''from_nt'', from_key]"

text \<open>The first inner loop of \<open>compute_probability\<close>.\<close>

definition cp_reset_step :: "sequence \<Rightarrow> base \<Rightarrow> base \<Rightarrow> pyobj list \<Rightarrow> error + pyobj list" where
  "cp_reset_step S to_nt nuc h =
     (if nuc \<noteq> to_nt then
        ebind (py_path h (event_tree S) (branch_path to_nt (PStr (base_str nuc)))) (\<lambda>b.
          py_update h b (prob_events 0))
      else Inr h)"

text \<open>The body of \<open>for combo in combos\<close>.\<close>

definition cp_combo_step ::
  "sequence \<Rightarrow> pyval \<Rightarrow> string \<Rightarrow> pyval \<Rightarrow> pyobj list \<Rightarrow> error + pyobj list" where
  "cp_combo_step S current_branch mu_cat combo h =
     ebind (omega_prob h (total_omegas S) combo) (\<lambda>omega_p.
     ebind (py_path h current_branch
              [PStr ''category'', PStr mu_cat, PStr ''omega'', combo]) (\<lambda>leaf.
       py_update h leaf (prob_events omega_p)))"

text \<open>The body of \<open>for mu_cat in self.cat_values.keys()\<close>.\<close>

definition cp_mu_step ::
  "sequence \<Rightarrow> base \<Rightarrow> pyval \<Rightarrow> pyval \<Rightarrow> string \<Rightarrow> pyobj list \<Rightarrow> error + pyobj list" where
  "cp_mu_step S to_nt from_key current_branch mu_cat h =
     ebind (dict_get (cat_values S) mu_cat) (\<lambda>mu.
     ebind (py_div mu (sum_list (map snd (cat_values S)))) (\<lambda>prob.
     ebind (py_path h current_branch [PStr ''category'', PStr mu_cat]) (\<lambda>m.
     ebind (py_update h m (prob_events prob)) (\<lambda>h1.
     ebind (py_path h1 (event_tree S)
              (branch_path to_nt from_key @ [PStr ''category'', PStr mu_cat, PStr ''omega'']))
       (\<lambda>od.
     ebind (py_keys h1 od) (\<lambda>combos.
       efold (cp_combo_step S current_branch mu_cat) combos h1))))))"

text \<open>The body of \<open>for from_nt, current_branch in ....items()\<close>.  The augmented assignment
  reads \<open>current_branch['prob']\<close>, evaluates the quotient, adds and stores.\<close>

definition cp_from_step ::
  "sequence \<Rightarrow> base \<Rightarrow> pyval \<times> pyval \<Rightarrow> pyobj list \<Rightarrow> error + pyobj list" where
  "cp_from_step S to_nt item h =
     (let from_key = fst item; current_branch = snd item in
      if from_key = PStr (base_str to_nt) then Inr h
      else
        (case base_of_key from_key of
           None \<Rightarrow> Inl KeyError
         | Some from_nt \<Rightarrow>
             ebind (py_getitem h current_branch (PStr ''prob'')) (\<lambda>old.
             ebind (py_div (if is_transv from_nt to_nt = Some True then kappa S else 1)
                      (1 + 2 * kappa S)) (\<lambda>inc.
             ebind (py_add old inc) (\<lambda>new.
             ebind (py_setitem h current_branch (PStr ''prob'') new) (\<lambda>h1.
               efold (cp_mu_step S to_nt from_key current_branch)
                 (map fst (cat_values S)) h1))))))"

text \<open>The body of \<open>for to_nt in NUCLEOTIDES\<close>.\<close>

definition cp_to_step :: "sequence \<Rightarrow> base \<Rightarrow> pyobj list \<Rightarrow> error + pyobj list" where
  "cp_to_step S to_nt h =
     ebind (efold (cp_reset_step S to_nt) NUCLEOTIDES h) (\<lambda>h1.
     ebind (py_path h1 (event_tree S)
              [PStr ''to_nt'', PStr (base_str to_nt), PStr ''from_nt'']) (\<lambda>fd.
     ebind (py_items h1 fd) (\<lambda>items.
       efold (cp_from_step S to_nt) items h1)))"

text \<open>\<open>Sequence.compute_probability\<close>.\<close>

definition compute_probability :: "sequence \<Rightarrow> error + sequence" where
  "compute_probability S =
     map_sum id (\<lambda>h. S\<lparr> heap := h \<rparr>) (efold (cp_to_step S) NUCLEOTIDES (heap S))"

section \<open>Counting the events\<close>

definition set_events :: "pyobj list \<Rightarrow> pyval \<Rightarrow> pyval list \<Rightarrow> nat \<Rightarrow> error + pyobj list" where
  "set_events h tree path n =
     ebind (py_path h tree path) (\<lambda>node.
       py_setitem h node (PStr ''number_of_events'') (PNum (real n)))"

text \<open>The body of \<open>for omega_tuple in branch_cat.keys()\<close> in \<open>count_events_per_layer\<close>.\<close>

definition ce_omega_step ::
  "sequence \<Rightarrow> pyval list \<Rightarrow> pyval \<Rightarrow> pyval \<Rightarrow> pyobj list \<times> nat \<Rightarrow> error + (pyobj list \<times> nat)" where
  "ce_omega_step S cat_path branch_cat omega_tuple st =
     ebind (py_path (fst st) branch_cat [omega_tuple, PStr ''nt'']) (\<lambda>nt_list.
     ebind (py_len (fst st) nt_list) (\<lambda>events.
     ebind (set_events (fst st) (event_tree S) (cat_path @ [PStr ''omega'', omega_tuple]) events)
       (\<lambda>h1. Inr (h1, snd st + events))))"

text \<open>The body of \<open>for cat in branch.keys()\<close>.\<close>

definition ce_cat_step ::
  "sequence \<Rightarrow> pyval list \<Rightarrow> pyval \<Rightarrow> pyval \<Rightarrow> pyobj list \<times> nat \<Rightarrow> error + (pyobj list \<times> nat)" where
  "ce_cat_step S from_path branch cat st =
     ebind (py_path (fst st) branch [cat, PStr ''omega'']) (\<lambda>branch_cat.
     ebind (py_keys (fst st) branch_cat) (\<lambda>omega_tuples.
     ebind (efold (ce_omega_step S (from_path @ [PStr ''category'', cat]) branch_cat)
              omega_tuples (fst st, 0)) (\<lambda>r.
     ebind (set_events (fst r) (event_tree S) (from_path @ [PStr ''category'', cat]) (snd r))
       (\<lambda>h2. Inr (h2, snd st + snd r)))))"

text \<open>The body of \<open>for from_nt in NUCLEOTIDES\<close>.\<close>

definition ce_from_step ::
  "sequence \<Rightarrow> base \<Rightarrow> base \<Rightarrow> pyobj list \<times> nat \<Rightarrow> error + (pyobj list \<times> nat)" where
  "ce_from_step S to_nt from_nt st =
     (if to_nt \<noteq> from_nt then
        (let from_path = branch_path to_nt (PStr (base_str from_nt)) in
         ebind (py_path (fst st) (event_tree S) (from_path @ [PStr ''category''])) (\<lambda>branch.
         ebind (py_keys (fst st) branch) (\<lambda>cats.
         ebind (efold (ce_cat_step S from_path branch) cats (fst st, 0)) (\<lambda>r.
         ebind (set_events (fst r) (event_tree S) from_path (snd r)) (\<lambda>h2.
           Inr (h2, snd st + snd r))))))
      else Inr st)"

text \<open>The body of \<open>for to_nt in NUCLEOTIDES\<close>.\<close>

definition ce_to_step :: "sequence \<Rightarrow> base \<Rightarrow> pyobj list \<Rightarrow> error + pyobj list" where
  "ce_to_step S to_nt h =
     ebind (efold (ce_from_step S to_nt) NUCLEOTIDES (h, 0)) (\<lambda>r.
       set_events (fst r) (event_tree S) [PStr ''to_nt'', PStr (base_str to_nt)] (snd r))"

text \<open>\<open>Sequence.count_events_per_layer\<close>.\<close>

definition count_events_per_layer :: "sequence \<Rightarrow> error + sequence" where
  "count_events_per_layer S =
     map_sum id (\<lambda>h. S\<lparr> heap := h \<rparr>) (efold (ce_to_step S) NUCLEOTIDES (heap S))"

section \<open>The constructor\<close>

text \<open>The body of \<open>for nt in self.nt_sequence\<close> in \<open>__init__\<close>; the state is the sequence
  and the counter of the generator.\<close>

definition init_nt_step ::
  "(nat \<Rightarrow> nat) \<Rightarrow> nat \<Rightarrow> sequence \<times> nat \<Rightarrow> error + (sequence \<times> nat)" where
  "init_nt_step rng nt st =
     ebind (set_substitution_rates (fst st) rng nt (snd st)) (\<lambda>r.
     ebind (nt_in_event_tree (fst r) nt) (\<lambda>r'.
       Inr (fst r', snd r)))"

text \<open>\<open>Sequence.__init__\<close>, with the generator \<open>rng\<close> as one more argument.\<close>

definition Sequence_init ::
  "base list \<Rightarrow> (string \<times> orf_info list) list option \<Rightarrow> real \<Rightarrow> real \<Rightarrow> (base \<rightharpoonup> real) \<Rightarrow>
     (string \<times> real) list \<Rightarrow> bool \<Rightarrow> (nat \<Rightarrow> nat) \<Rightarrow> error + sequence" where
  "Sequence_init str_sequence orf_table kap rate pi_v cats circular rng =
     (let S0 = \<lparr> orfs = orf_table, kappa = kap, global_rate = rate, pi_freq = pi_v,
                 cat_values = cats, is_circular = circular,
                 nt_sequence = make_nucleotides str_sequence, codons_all = [],
                 total_omegas = [], seq_orf_map = [], event_tree = PNone, heap = [] \<rparr>
      in
      ebind (set_codons S0) (\<lambda>S1.
      ebind (create_orf_map S1) (\<lambda>m.
      ebind (create_event_tree (S1\<lparr> seq_orf_map := m \<rparr>)) (\<lambda>(tree, h).
      ebind (efold (init_nt_step rng) [0..<length str_sequence]
               (S1\<lparr> seq_orf_map := m, event_tree := tree, heap := h \<rparr>, 0)) (\<lambda>r.
      ebind (compute_probability (fst r)) (\<lambda>S2.
        count_events_per_layer S2))))))"

section \<open>Concrete inputs\<close>

text \<open>A sequence object as \<open>__init__\<close> has it before the codons are set: \<open>kappa = 1/2\<close>,
  \<open>global_rate = 1\<close>, uniform \<open>pi\<close>.\<close>

definition seq_with ::
  "base list \<Rightarrow> (string \<times> orf_info list) list option \<Rightarrow> (string \<times> real) list \<Rightarrow> sequence" where
  "seq_with str table cats =
     \<lparr> orfs = table, kappa = 1/2, global_rate = 1, pi_freq = (\<lambda>b. Some (1/4)),
       cat_values = cats, is_circular = False, nt_sequence = make_nucleotides str,
       codons_all = [], total_omegas = [], seq_orf_map = [], event_tree = PNone, heap = [] \<rparr>"

text \<open>An ORF with three \<open>omega\<close> classes, the only ORF of its table.\<close>

definition orf_at :: "(int \<times> int) list \<Rightarrow> orf_info" where
  "orf_at cs = \<lparr> coords = cs, omega_shape = 2, omega_classes = 3,
       omega_values = [1/4, 1/2, 2], orf_map = PTuple [PNum 1] \<rparr>"

text \<open>A circular sequence of three nucleotides.\<close>

definition circular3 :: sequence where
  "circular3 = (seq_with [A, C, G] (Some []) [])\<lparr> is_circular := True \<rparr>"

text \<open>The sequence after the loops of \<open>__init__\<close> that set the codons (they never
  fail, \<open>find_codons\<close> being total).\<close>

definition after_codons :: "sequence \<Rightarrow> sequence" where
  "after_codons S = (case set_codons S of Inr S' \<Rightarrow> S' | Inl e \<Rightarrow> S)"

text \<open>The sequence \<open>ATGAAATAG\<close> with the one ORF \<open>+0 [0, 9)\<close> and one rate category.\<close>

definition trivial_orf_seq :: sequence where
  "trivial_orf_seq =
     after_codons (seq_with [A, T, G, A, A, A, T, A, G] (Some [(''+0'', [orf_at [(0, 9)]])])
                     [(''mu1'', 1)])"

section \<open>The claims about the \<open>omega\<close> record, as predicates\<close>

text \<open>What \<open>set_substitution_rates\<close> stores in one entry of \<open>chosen_omegas\<close> for a codon
  when the pair does not touch a START or STOP: an index into the \<open>omega_values\<close> of the
  codon's ORF for a non-synonymous change, \<open>None\<close> for a synonymous one.\<close>

definition omega_entry :: "sequence \<Rightarrow> nat \<Rightarrow> base \<Rightarrow> codon \<Rightarrow> pyval \<Rightarrow> bool" where
  "omega_entry S nt to_nt c v =
     (case is_nonsyn S c (nt_in_pos c nt) to_nt of
        Inl e \<Rightarrow> False
      | Inr True \<Rightarrow> list_ex (\<lambda>i. v = PNum (real i)) [0..<length (omega_values (orf c))]
      | Inr False \<Rightarrow> v = PNone)"

text \<open>The \<open>omega\<close> signature in the words of the specification: a tuple with one slot per
  containing ORF; each slot a one-hot vector of length (number of \<open>omega\<close> classes + 1),
  at one of the first positions for a non-synonymous change, at the last position for a
  synonymous one.\<close>

definition one_hot :: "nat \<Rightarrow> nat \<Rightarrow> pyval" where
  "one_hot n i = PTuple (map (\<lambda>j. PNum (if j = i then 1 else 0)) [0..<n])"

definition spec_omega_slot :: "sequence \<Rightarrow> nat \<Rightarrow> base \<Rightarrow> codon \<Rightarrow> pyval \<Rightarrow> bool" where
  "spec_omega_slot S nt to_nt c slot =
     (let k = length (omega_values (orf c)) in
      case is_nonsyn S c (nt_in_pos c nt) to_nt of
        Inl e \<Rightarrow> False
      | Inr True \<Rightarrow> list_ex (\<lambda>i. slot = one_hot (Suc k) i) [0..<k]
      | Inr False \<Rightarrow> slot = one_hot (Suc k) k)"

definition spec_omega_signature :: "sequence \<Rightarrow> nat \<Rightarrow> base \<Rightarrow> pyval \<Rightarrow> bool" where
  "spec_omega_signature S nt to_nt v =
     (case v of
        PTuple slots \<Rightarrow> list_all2 (spec_omega_slot S nt to_nt) (codons (nt_sequence S ! nt)) slots
      | _ \<Rightarrow> False)"

text \<open>The sequence as \<open>__init__\<close> has it when its loop over the nucleotides starts: the
  codons set, \<open>orf_map\<close> and the empty event tree created.\<close>

definition before_rates :: "sequence \<Rightarrow> sequence" where
  "before_rates S =
     (case create_orf_map (after_codons S) of
        Inl e \<Rightarrow> S
      | Inr m \<Rightarrow>
         (case create_event_tree ((after_codons S)\<lparr> seq_orf_map := m \<rparr>) of
            Inl e \<Rightarrow> S
          | Inr (tree, h) \<Rightarrow>
              (after_codons S)\<lparr> seq_orf_map := m, event_tree := tree, heap := h \<rparr>))"

text \<open>
  An event tree in the layout that \<open>nt_in_event_tree\<close>, \<open>compute_probability\<close> and
  \<open>count_events_per_layer\<close> read: \<open>to_nt\<close>, \<open>from_nt\<close>, then per branch the key
  \<open>'category'\<close>, the category, the key \<open>'omega'\<close>, the signature and the list \<open>'nt'\<close>;
  every dictionary is an object of its own.  No function of the source builds this tree;
  it serves to run these three functions past their first lookup.
\<close>

definition layout_leaf ::
  "pyval \<Rightarrow> (pyval \<times> pyval) list \<times> pyobj list \<Rightarrow> (pyval \<times> pyval) list \<times> pyobj list" where
  "layout_leaf combo st =
     (let (l, h1) = alloc (snd st) (OList []);
          (leaf, h2) = alloc h1 (ODict [(PStr ''nt'', l)])
      in (fst st @ [(combo, leaf)], h2))"

definition layout_category ::
  "pyval list \<Rightarrow> string \<Rightarrow> (pyval \<times> pyval) list \<times> pyobj list \<Rightarrow> (pyval \<times> pyval) list \<times> pyobj list" where
  "layout_category combos cat st =
     (let (kvs, h1) = fold layout_leaf combos ([], snd st);
          (od, h2) = alloc h1 (ODict kvs);
          (m, h3) = alloc h2 (ODict [(PStr ''omega'', od)])
      in (fst st @ [(PStr cat, m)], h3))"

definition layout_from ::
  "string list \<Rightarrow> pyval list \<Rightarrow> base \<Rightarrow> base \<Rightarrow> (pyval \<times> pyval) list \<times> pyobj list \<Rightarrow>
     (pyval \<times> pyval) list \<times> pyobj list" where
  "layout_from cats combos to_nt from_nt st =
     (if from_nt = to_nt then (fst st @ [(PStr (base_str from_nt), PNone)], snd st)
      else
        (let (kvs, h1) = fold (layout_category combos) cats ([], snd st);
             (cd, h2) = alloc h1 (ODict kvs);
             (b, h3) = alloc h2 (ODict [(PStr ''category'', cd)])
         in (fst st @ [(PStr (base_str from_nt), b)], h3)))"

definition layout_to ::
  "string list \<Rightarrow> pyval list \<Rightarrow> base \<Rightarrow> (pyval \<times> pyval) list \<times> pyobj list \<Rightarrow>
     (pyval \<times> pyval) list \<times> pyobj list" where
  "layout_to cats combos to_nt st =
     (let (kvs, h1) = fold (layout_from cats combos to_nt) NUCLEOTIDES ([], snd st);
          (fd, h2) = alloc h1 (ODict kvs);
          (t, h3) = alloc h2 (ODict [(PStr ''from_nt'', fd)])
      in (fst st @ [(PStr (base_str to_nt), t)], h3))"

definition with_layout_tree :: "pyval list \<Rightarrow> sequence \<Rightarrow> sequence" where
  "with_layout_tree combos S =
     (let (kvs, h1) = fold (layout_to (map fst (cat_values S)) combos) NUCLEOTIDES ([], []);
          (td, h2) = alloc h1 (ODict kvs);
          (tree, h3) = alloc h2 (ODict [(PStr ''to_nt'', td)])
      in S\<lparr> event_tree := tree, heap := h3 \<rparr>)"

text \<open>Reading the tree: the \<open>prob\<close> of a node, of the three from-base nodes under a
  to-base, and of a leaf.\<close>

definition prob_at :: "sequence \<Rightarrow> pyval list \<Rightarrow> error + pyval" where
  "prob_at S path = py_path (heap S) (event_tree S) (path @ [PStr ''prob''])"

definition from_probs :: "sequence \<Rightarrow> base \<Rightarrow> (error + pyval) list" where
  "from_probs S to_nt =
     map (\<lambda>f. prob_at S (branch_path to_nt (PStr (base_str f)))) (remove1 to_nt NUCLEOTIDES)"

definition leaf_prob :: "sequence \<Rightarrow> base \<Rightarrow> base \<Rightarrow> string \<Rightarrow> pyval \<Rightarrow> error + pyval" where
  "leaf_prob S to_nt from_nt cat combo =
     prob_at S (branch_path to_nt (PStr (base_str from_nt))
                  @ [PStr ''category'', PStr cat, PStr ''omega'', combo])"

text \<open>Signatures in the one-hot encoding that the comments of \<open>compute_probability\<close>
  describe: synonymous, non-synonymous in the first class, and non-synonymous in two
  ORFs.\<close>

definition syn_sig :: pyval where
  "syn_sig = PTuple [PTuple [PNum 0, PNum 0, PNum 0, PNum 1]]"
definition nonsyn_sig :: pyval where
  "nonsyn_sig = PTuple [PTuple [PNum 1, PNum 0, PNum 0, PNum 0]]"
definition nonsyn2_sig :: pyval where
  "nonsyn2_sig = PTuple [PTuple [PNum 1, PNum 0, PNum 0, PNum 0], PTuple [PNum 0, PNum 1, PNum 0]]"

text \<open>A negative-strand ORF that encodes \<open>ATG AAA TAA\<close>: the sequence is the reverse
  complement \<open>TTATTTCAT\<close>.\<close>

definition reverse_orf_seq :: sequence where
  "reverse_orf_seq =
     after_codons (seq_with [T, T, A, T, T, T, C, A, T] (Some [(''-0'', [orf_at [(0, 9)]])])
                     [(''mu1'', 1)])"

text \<open>The pairs (site, target base) whose substitution touches no START or STOP.\<close>

definition admissible_pairs :: "sequence \<Rightarrow> (nat \<times> base) list" where
  "admissible_pairs S =
     filter (\<lambda>(nt, b). b \<noteq> state (nt_sequence S ! nt) \<and> is_start_stop_codon S nt b = Inr False)
       (List.product [0..<length (nt_sequence S)] NUCLEOTIDES)"

text \<open>The sequence \<open>AAAATGAAATAG\<close> with the one ORF \<open>+0 [3, 12)\<close>: its first three
  nucleotides lie in no ORF.\<close>

definition noncoding_seq :: sequence where
  "noncoding_seq =
     after_codons (seq_with [A, A, A, A, T, G, A, A, A, T, A, G]
                     (Some [(''+0'', [orf_at [(3, 12)]])]) [(''mu1'', 1)])"

text \<open>The sequence with \<open>nt.omega_keys[b] = v\<close> and \<open>nt.cat_keys[b] = cat\<close> for one
  nucleotide: an input for \<open>nt_in_event_tree\<close> with a record of one's choice.\<close>

definition with_omega_key :: "nat \<Rightarrow> base \<Rightarrow> pyval \<Rightarrow> string \<Rightarrow> sequence \<Rightarrow> sequence" where
  "with_omega_key nt b v cat S =
     S\<lparr> nt_sequence := (nt_sequence S)
          [nt := (nt_sequence S ! nt)\<lparr> omega_keys := (omega_keys (nt_sequence S ! nt))(b \<mapsto> v),
                                        cat_keys := (cat_keys (nt_sequence S ! nt))(b \<mapsto> cat) \<rparr>] \<rparr>"

text \<open>Reading the tree in the heap \<open>h\<close>: the nucleotides in the list \<open>'nt'\<close> of a leaf.\<close>

definition leaf_nts ::
  "sequence \<Rightarrow> pyobj list \<Rightarrow> base \<Rightarrow> base \<Rightarrow> string \<Rightarrow> pyval \<Rightarrow> error + pyval list" where
  "leaf_nts S h to_nt from_nt cat combo =
     ebind (py_path h (event_tree S)
              (branch_path to_nt (PStr (base_str from_nt))
                 @ [PStr ''category'', PStr cat, PStr ''omega'', combo, PStr ''nt'']))
       (py_iter h)"

section \<open>Properties: neighbours and codon resolution\<close>











text \<open>
  C10.  In a circular sequence of length \<open>L\<close>, \<open>get_right_nt(p)\<close> returns \<open>None\<close> for every
  position \<open>0 \<le> p < L - 1\<close>, and at \<open>p = L - 1\<close> it returns the nucleotide at position 0.
\<close>

theorem get_right_nt_circular:
  assumes "is_circular S" and "0 \<le> p" and "p < int (length (nt_sequence S))"
  shows "get_right_nt S p =
           (if p = int (length (nt_sequence S)) - 1 then Inr (Some (nt_sequence S ! 0))
            else Inr None)"
  using assms by (auto simp: get_right_nt_def py_index_def)

theorem get_right_nt_circular_witness:
  "is_circular circular3 \<and> length (nt_sequence circular3) = 3
   \<and> get_right_nt circular3 0 = Inr None
   \<and> get_right_nt circular3 1 = Inr None
   \<and> get_right_nt circular3 2 = Inr (Some (Nucleotide A 0))"
proof -
  have c: "is_circular circular3" by (simp add: circular3_def)
  have l: "int (length (nt_sequence circular3)) = 3"
    by (simp add: circular3_def seq_with_def make_nucleotides_def)
  have n0: "nt_sequence circular3 ! 0 = Nucleotide A 0"
    by (simp add: circular3_def seq_with_def make_nucleotides_def)
  show ?thesis
    using get_right_nt_circular [OF c, of 0] get_right_nt_circular [OF c, of 1]
      get_right_nt_circular [OF c, of 2] l n0 c
    by simp
qed




section \<open>Properties: substitution rates\<close>

lemma ebind_Inr: "ebind m f = Inr y \<longleftrightarrow> (\<exists>x. m = Inr x \<and> f x = Inr y)"
  by (cases m) (simp_all add: ebind_def)

lemma ebind_InrE:
  assumes "ebind m f = Inr y"
  obtains x where "m = Inr x" and "f x = Inr y"
  using assms by (auto simp: ebind_Inr)

lemma efold_append: "efold f (xs @ ys) s = ebind (efold f xs s) (efold f ys)"
  by (induction xs arbitrary: s) (auto simp: ebind_def split: sum.splits)

lemma efold_invariant:
  assumes "efold f xs s = Inr r" and "I s"
    and "\<And>x t t'. x \<in> set xs \<Longrightarrow> I t \<Longrightarrow> f x t = Inr t' \<Longrightarrow> I t'"
  shows "I r"
  using assms(1,2,3)
proof (induction xs arbitrary: s)
  case Nil
  then show ?case by simp
next
  case (Cons x xs)
  from Cons.prems(1) obtain t where t: "f x s = Inr t" and rest: "efold f xs t = Inr r"
    by (auto split: sum.splits)
  have "I t" using Cons.prems(3) [of x s t] Cons.prems(2) t by simp
  moreover have "\<And>y u u'. y \<in> set xs \<Longrightarrow> I u \<Longrightarrow> f y u = Inr u' \<Longrightarrow> I u'"
    by (rule Cons.prems(3) [OF list.set_intros(2)])
  ultimately show ?case using Cons.IH [OF rest] by blast
qed

text \<open>The result of one passage of the loop over the targets, for a target other than the
  current base.\<close>

lemma rates_step_result:
  assumes ok: "rates_step S rng nt to_nt acc = Inr acc'"
    and other: "to_nt \<noteq> state (nt_sequence S ! nt)"
  obtains f d k cat mu where
    "pi_freq S (state (nt_sequence S ! nt)) = Some f"
    "if codons (nt_sequence S ! nt) \<noteq> []
     then efold (chosen_omegas_step S rng nt to_nt) (codons (nt_sequence S ! nt))
            ([], rng_pos acc) = Inr (d, k)
     else chosen_omegas acc = Some d \<and> k = rng_pos acc"
    "map_of (cat_values S) cat = Some mu"
    "acc' = \<lparr> sub_rates = (sub_rates acc)(to_nt \<mapsto>
                 Some ((if is_transv (state (nt_sequence S ! nt)) to_nt = Some True
                        then global_rate S * f * kappa S else global_rate S * f) * mu)),
              selected_omega = (selected_omega acc)(to_nt \<mapsto> PDict d),
              my_cat_keys = (my_cat_keys acc)(to_nt \<mapsto> cat),
              chosen_omegas = Some d, rng_pos = Suc k \<rparr>"
proof -
  let ?cur = "state (nt_sequence S ! nt)"
  let ?cs = "codons (nt_sequence S ! nt)"
  define X where "X = (case pi_freq S ?cur of None \<Rightarrow> Inl KeyError
                        | Some f \<Rightarrow> Inr (global_rate S * f))"
  define Y where "Y = (if ?cs \<noteq> []
               then map_sum id (\<lambda>(d, k). (Some d, k))
                      (efold (chosen_omegas_step S rng nt to_nt) ?cs ([], rng_pos acc))
               else Inr (chosen_omegas acc, rng_pos acc))"
  define r1 where "r1 = (\<lambda>r0. if is_transv ?cur to_nt = Some True then r0 * kappa S else r0)"
  define Z where "Z = (\<lambda>r0 d k.
            ebind (choice rng k (map fst (cat_values S))) (\<lambda>(selected_cat, k').
            ebind (dict_get (cat_values S) selected_cat) (\<lambda>mu.
              Inr \<lparr> sub_rates = (sub_rates acc)(to_nt \<mapsto> Some (r1 r0 * mu)),
                    selected_omega = (selected_omega acc)(to_nt \<mapsto> PDict d),
                    my_cat_keys = (my_cat_keys acc)(to_nt \<mapsto> selected_cat),
                    chosen_omegas = Some d,
                    rng_pos = k' \<rparr>)))"
  have unfolded: "rates_step S rng nt to_nt acc =
      ebind X (\<lambda>r0. ebind Y (\<lambda>(ch, k).
        case ch of None \<Rightarrow> Inl UnboundLocalError | Some d \<Rightarrow> Z r0 d k))"
    using other unfolding rates_step_def Let_def X_def Y_def Z_def r1_def by simp
  from ok obtain r0 where x: "X = Inr r0"
    and rest: "ebind Y (\<lambda>(ch, k).
        case ch of None \<Rightarrow> Inl UnboundLocalError | Some d \<Rightarrow> Z r0 d k) = Inr acc'"
    unfolding unfolded by (rule ebind_InrE)
  from x obtain f where f: "pi_freq S ?cur = Some f" and r0: "r0 = global_rate S * f"
    unfolding X_def by (auto split: option.splits)
  from rest obtain p where y: "Y = Inr p"
    and rest2: "(case p of (ch, k) \<Rightarrow>
        (case ch of None \<Rightarrow> Inl UnboundLocalError | Some d \<Rightarrow> Z r0 d k)) = Inr acc'"
    by (rule ebind_InrE)
  obtain ch k where p: "p = (ch, k)" by (cases p)
  from rest2 p obtain d where ch: "ch = Some d" and z: "Z r0 d k = Inr acc'"
    by (cases ch) auto
  have loop: "if ?cs \<noteq> []
     then efold (chosen_omegas_step S rng nt to_nt) ?cs ([], rng_pos acc) = Inr (d, k)
     else chosen_omegas acc = Some d \<and> k = rng_pos acc"
  proof (cases "?cs \<noteq> []")
    case True
    with y p ch have "map_sum id (\<lambda>(d, k). (Some d, k))
        (efold (chosen_omegas_step S rng nt to_nt) ?cs ([], rng_pos acc)) = Inr (Some d, k)"
      by (simp add: Y_def)
    then have "efold (chosen_omegas_step S rng nt to_nt) ?cs ([], rng_pos acc) = Inr (d, k)"
      by (cases "efold (chosen_omegas_step S rng nt to_nt) ?cs ([], rng_pos acc)") auto
    with True show ?thesis by simp
  next
    case False
    with y p ch show ?thesis by (simp add: Y_def)
  qed
  from z obtain q where c: "choice rng k (map fst (cat_values S)) = Inr q"
    and rest3: "(case q of (selected_cat, k') \<Rightarrow>
            ebind (dict_get (cat_values S) selected_cat) (\<lambda>mu.
              Inr \<lparr> sub_rates = (sub_rates acc)(to_nt \<mapsto> Some (r1 r0 * mu)),
                    selected_omega = (selected_omega acc)(to_nt \<mapsto> PDict d),
                    my_cat_keys = (my_cat_keys acc)(to_nt \<mapsto> selected_cat),
                    chosen_omegas = Some d,
                    rng_pos = k' \<rparr>)) = Inr acc'"
    unfolding Z_def by (rule ebind_InrE)
  obtain cat k' where q: "q = (cat, k')" by (cases q)
  from c q have k': "k' = Suc k" by (auto simp: choice_def split: if_splits)
  from rest3 q obtain mu where m: "dict_get (cat_values S) cat = Inr mu"
    and acc': "acc' = \<lparr> sub_rates = (sub_rates acc)(to_nt \<mapsto> Some (r1 r0 * mu)),
                    selected_omega = (selected_omega acc)(to_nt \<mapsto> PDict d),
                    my_cat_keys = (my_cat_keys acc)(to_nt \<mapsto> cat),
                    chosen_omegas = Some d,
                    rng_pos = k' \<rparr>"
    by (auto elim!: ebind_InrE)
  from m have mu: "map_of (cat_values S) cat = Some mu"
    by (auto simp: dict_get_def split: option.splits)
  show thesis
    by (rule that [OF f loop mu]) (simp add: acc' r1_def r0 k')
qed

lemma rates_step_other:
  assumes "rates_step S rng nt to_nt acc = Inr acc'" and "b \<noteq> to_nt"
  shows "sub_rates acc' b = sub_rates acc b \<and> my_cat_keys acc' b = my_cat_keys acc b
         \<and> selected_omega acc' b = selected_omega acc b"
proof (cases "to_nt = state (nt_sequence S ! nt)")
  case True
  with assms show ?thesis by (auto simp: rates_step_def Let_def)
next
  case False
  from assms(1) False obtain f d k cat mu where
    "acc' = \<lparr> sub_rates = (sub_rates acc)(to_nt \<mapsto>
                 Some ((if is_transv (state (nt_sequence S ! nt)) to_nt = Some True
                        then global_rate S * f * kappa S else global_rate S * f) * mu)),
              selected_omega = (selected_omega acc)(to_nt \<mapsto> PDict d),
              my_cat_keys = (my_cat_keys acc)(to_nt \<mapsto> cat),
              chosen_omegas = Some d, rng_pos = Suc k \<rparr>"
    by (rule rates_step_result)
  with assms(2) show ?thesis by simp
qed

text \<open>The loop over \<open>NUCLEOTIDES\<close> passes the target \<open>b\<close> once; what that passage stores
  for \<open>b\<close> stays.\<close>

lemma rates_loop_at:
  assumes loop: "efold (rates_step S rng nt) NUCLEOTIDES acc0 = Inr acc"
  obtains a1 a2 where "rates_step S rng nt b a1 = Inr a2"
    "sub_rates acc b = sub_rates a2 b" "my_cat_keys acc b = my_cat_keys a2 b"
    "selected_omega acc b = selected_omega a2 b"
proof -
  obtain ys zs where split: "NUCLEOTIDES = ys @ b # zs" and nb: "b \<notin> set zs"
  proof (cases b)
    case A then show ?thesis using that [of "[]" "[C, G, T]"] by (simp add: NUCLEOTIDES_def)
  next
    case C then show ?thesis using that [of "[A]" "[G, T]"] by (simp add: NUCLEOTIDES_def)
  next
    case G then show ?thesis using that [of "[A, C]" "[T]"] by (simp add: NUCLEOTIDES_def)
  next
    case T then show ?thesis using that [of "[A, C, G]" "[]"] by (simp add: NUCLEOTIDES_def)
  qed
  from loop have "ebind (efold (rates_step S rng nt) ys acc0)
                    (efold (rates_step S rng nt) (b # zs)) = Inr acc"
    unfolding split efold_append .
  then obtain a1 where "efold (rates_step S rng nt) ys acc0 = Inr a1"
    and tail: "efold (rates_step S rng nt) (b # zs) a1 = Inr acc"
    by (rule ebind_InrE)
  from tail obtain a2 where stepb: "rates_step S rng nt b a1 = Inr a2"
    and rest: "efold (rates_step S rng nt) zs a2 = Inr acc"
    by (auto split: sum.splits)
  let ?I = "\<lambda>a. sub_rates a b = sub_rates a2 b \<and> my_cat_keys a b = my_cat_keys a2 b
                 \<and> selected_omega a b = selected_omega a2 b"
  have "?I acc"
  proof (rule efold_invariant [OF rest, where I = ?I])
    show "?I a2" by simp
  next
    fix x t t'
    assume "x \<in> set zs" and q: "?I t" and st: "rates_step S rng nt x t = Inr t'"
    then have "b \<noteq> x" using nb by auto
    from rates_step_other [OF st this] q show "?I t'" by simp
  qed
  with stepb show thesis using that by blast
qed

lemma set_substitution_rates_result:
  assumes "set_substitution_rates S rng nt k = Inr (S', k')"
    and "nt < length (nt_sequence S)"
  obtains acc where
    "efold (rates_step S rng nt) NUCLEOTIDES
       \<lparr> sub_rates = Map.empty, selected_omega = Map.empty, my_cat_keys = Map.empty,
         chosen_omegas = None, rng_pos = k \<rparr> = Inr acc"
    "rates (nt_sequence S' ! nt) = sub_rates acc"
    "cat_keys (nt_sequence S' ! nt) = my_cat_keys acc"
    "omega_keys (nt_sequence S' ! nt) = selected_omega acc"
    "state (nt_sequence S' ! nt) = state (nt_sequence S ! nt)"
    "codons (nt_sequence S' ! nt) = codons (nt_sequence S ! nt)"
    "pos_in_seq (nt_sequence S' ! nt) = pos_in_seq (nt_sequence S ! nt)"
    "\<And>p. p \<noteq> nt \<Longrightarrow> nt_sequence S' ! p = nt_sequence S ! p"
    "length (nt_sequence S') = length (nt_sequence S)"
    "total_omegas S' = total_omegas S" "heap S' = heap S" "event_tree S' = event_tree S"
proof -
  from assms(1) obtain acc where
    loop: "efold (rates_step S rng nt) NUCLEOTIDES
             \<lparr> sub_rates = Map.empty, selected_omega = Map.empty, my_cat_keys = Map.empty,
               chosen_omegas = None, rng_pos = k \<rparr> = Inr acc"
    and S': "S' = S\<lparr> nt_sequence := (nt_sequence S)[nt := (nt_sequence S ! nt)
               \<lparr> rates := sub_rates acc, cat_keys := my_cat_keys acc,
                 omega_keys := selected_omega acc,
                 mutation_rate := get_mutation_rate ((nt_sequence S ! nt)
                    \<lparr> rates := sub_rates acc, cat_keys := my_cat_keys acc,
                      omega_keys := selected_omega acc \<rparr>) \<rparr>] \<rparr>"
    unfolding set_substitution_rates_def Let_def by (auto elim!: ebind_InrE)
  show thesis
    by (rule that [OF loop]) (use assms(2) in \<open>simp_all add: S'\<close>)
qed

text \<open>Whenever \<open>set_substitution_rates\<close> returns, the rate it has stored for a target
  base \<open>b\<close> other than the current base is
  \<open>global_rate * pi[nt.state] * (kappa if transversion else 1) * cat_values[cat_keys[b]]\<close>,
  with no \<open>omega\<close> factor, whether or not the pair touches a START or STOP codon.\<close>

lemma stored_rate:
  assumes "set_substitution_rates S rng nt k = Inr (S', k')"
    and "nt < length (nt_sequence S)"
    and "b \<noteq> state (nt_sequence S ! nt)"
  shows "\<exists>f cat mu. pi_freq S (state (nt_sequence S ! nt)) = Some f
           \<and> cat_keys (nt_sequence S' ! nt) b = Some cat
           \<and> map_of (cat_values S) cat = Some mu
           \<and> rates (nt_sequence S' ! nt) b =
               Some (Some (global_rate S * f
                 * (if is_transv (state (nt_sequence S ! nt)) b = Some True
                    then kappa S else 1) * mu))"
proof -
  from assms(1,2) obtain acc where
    loop: "efold (rates_step S rng nt) NUCLEOTIDES
             \<lparr> sub_rates = Map.empty, selected_omega = Map.empty, my_cat_keys = Map.empty,
               chosen_omegas = None, rng_pos = k \<rparr> = Inr acc"
    and r: "rates (nt_sequence S' ! nt) = sub_rates acc"
    and c: "cat_keys (nt_sequence S' ! nt) = my_cat_keys acc"
    by (rule set_substitution_rates_result)
  from loop obtain a1 a2 where stepb: "rates_step S rng nt b a1 = Inr a2"
    and keep: "sub_rates acc b = sub_rates a2 b" "my_cat_keys acc b = my_cat_keys a2 b"
    by (rule rates_loop_at)
  from stepb assms(3) obtain f d j cat mu where
    f: "pi_freq S (state (nt_sequence S ! nt)) = Some f"
    and mu: "map_of (cat_values S) cat = Some mu"
    and a2: "a2 = \<lparr> sub_rates = (sub_rates a1)(b \<mapsto>
                 Some ((if is_transv (state (nt_sequence S ! nt)) b = Some True
                        then global_rate S * f * kappa S else global_rate S * f) * mu)),
              selected_omega = (selected_omega a1)(b \<mapsto> PDict d),
              my_cat_keys = (my_cat_keys a1)(b \<mapsto> cat),
              chosen_omegas = Some d, rng_pos = Suc j \<rparr>"
    by (rule rates_step_result)
  show ?thesis
    using f mu by (simp add: r c keep a2)
qed

lemma trivial_orf_seq_fields:
  "length (nt_sequence trivial_orf_seq) = 9"
  "state (nt_sequence trivial_orf_seq ! 3) = A"
  "state (nt_sequence trivial_orf_seq ! 0) = A"
  "global_rate trivial_orf_seq = 1"
  "kappa trivial_orf_seq = 1 / 2"
  "pi_freq trivial_orf_seq A = Some (1 / 4)"
  "cat_values trivial_orf_seq = [(''mu1'', 1)]"
  by code_simp+

text \<open>The first \<open>A\<close> of the codon \<open>AAA\<close> of \<open>ATGAAATAG\<close> and the target \<open>C\<close>, a
  transversion: the stored rate is \<open>1 * 1/4 * 1/2 * 1\<close>.\<close>

lemma stored_rate_example:
  "\<exists>S' k'. set_substitution_rates trivial_orf_seq (\<lambda>k. 0) 3 0 = Inr (S', k')
      \<and> 3 < length (nt_sequence trivial_orf_seq)
      \<and> C \<noteq> state (nt_sequence trivial_orf_seq ! 3)
      \<and> cat_keys (nt_sequence S' ! 3) C = Some ''mu1''
      \<and> rates (nt_sequence S' ! 3) C = Some (Some (1 / 8))"
proof -
  have "\<not> isl (set_substitution_rates trivial_orf_seq (\<lambda>k. 0) 3 0)"
    by code_simp
  then obtain S' k' where e: "set_substitution_rates trivial_orf_seq (\<lambda>k. 0) 3 0 = Inr (S', k')"
    by (cases "set_substitution_rates trivial_orf_seq (\<lambda>k. 0) 3 0") auto
  have l: "3 < length (nt_sequence trivial_orf_seq)"
    and s: "C \<noteq> state (nt_sequence trivial_orf_seq ! 3)"
    by (simp_all add: trivial_orf_seq_fields)
  from stored_rate [OF e l s] obtain f cat mu where
    "pi_freq trivial_orf_seq (state (nt_sequence trivial_orf_seq ! 3)) = Some f"
    "cat_keys (nt_sequence S' ! 3) C = Some cat"
    "map_of (cat_values trivial_orf_seq) cat = Some mu"
    "rates (nt_sequence S' ! 3) C =
       Some (Some (global_rate trivial_orf_seq * f
         * (if is_transv (state (nt_sequence trivial_orf_seq ! 3)) C = Some True
            then kappa trivial_orf_seq else 1) * mu))"
    by blast
  then have "cat_keys (nt_sequence S' ! 3) C = Some ''mu1''"
    and "rates (nt_sequence S' ! 3) C = Some (Some (1 / 8))"
    by (auto simp: trivial_orf_seq_fields is_transv_def split: if_splits)
  with e l s show ?thesis by blast
qed

text \<open>A nucleotide that lies in no ORF: \<open>chosen_omegas\<close> is never bound, and the first
  target other than the current base raises \<open>UnboundLocalError\<close>.  So does the constructor
  on a sequence without ORFs.\<close>

lemma rates_step_current:
  assumes "to_nt = state (nt_sequence S ! nt)"
  shows "\<exists>acc'. rates_step S rng nt to_nt acc = Inr acc' \<and> chosen_omegas acc' = chosen_omegas acc"
  using assms by (simp add: rates_step_def Let_def)

lemma rates_step_unbound:
  assumes "to_nt \<noteq> state (nt_sequence S ! nt)"
    and "codons (nt_sequence S ! nt) = []"
    and "pi_freq S (state (nt_sequence S ! nt)) = Some f"
    and "chosen_omegas acc = None"
  shows "rates_step S rng nt to_nt acc = Inl UnboundLocalError"
  using assms by (simp add: rates_step_def Let_def ebind_def)

lemma no_orf_unbound:
  assumes cs: "codons (nt_sequence S ! nt) = []"
    and f: "pi_freq S (state (nt_sequence S ! nt)) = Some f"
  shows "set_substitution_rates S rng nt k = Inl UnboundLocalError"
proof -
  let ?acc0 = "\<lparr> sub_rates = Map.empty, selected_omega = Map.empty, my_cat_keys = Map.empty,
                  chosen_omegas = None, rng_pos = k \<rparr>"
  have "efold (rates_step S rng nt) NUCLEOTIDES ?acc0 = Inl UnboundLocalError"
  proof (cases "state (nt_sequence S ! nt) = A")
    case True
    from rates_step_current [of A S nt rng ?acc0] True obtain acc' where
      a: "rates_step S rng nt A ?acc0 = Inr acc'" and c: "chosen_omegas acc' = None"
      by auto
    have "rates_step S rng nt C acc' = Inl UnboundLocalError"
      by (rule rates_step_unbound [OF _ cs f c]) (simp add: True)
    with a show ?thesis by (simp add: NUCLEOTIDES_def)
  next
    case False
    have "rates_step S rng nt A ?acc0 = Inl UnboundLocalError"
      by (rule rates_step_unbound [OF _ cs f]) (use False in simp_all)
    then show ?thesis by (simp add: NUCLEOTIDES_def)
  qed
  then show ?thesis by (simp add: set_substitution_rates_def ebind_def)
qed

lemma no_orf_unbound_example:
  "codons (nt_sequence (seq_with [A, A, A] (Some []) [(''mu1'', 1)]) ! 0) = []
   \<and> Sequence_init [A, A, A] (Some []) (1/2) 1 (\<lambda>b. Some (1/4)) [(''mu1'', 1)] False (\<lambda>k. 0)
       = Inl UnboundLocalError
   \<and> set_substitution_rates (seq_with [A, A, A] (Some []) [(''mu1'', 1)]) (\<lambda>k. 0) 0 0
       = Inl UnboundLocalError"
proof -
  have cs: "codons (nt_sequence (seq_with [A, A, A] (Some []) [(''mu1'', 1)]) ! 0) = []"
    by (simp add: seq_with_def make_nucleotides_def Nucleotide_def)
  have f: "pi_freq (seq_with [A, A, A] (Some []) [(''mu1'', 1)])
             (state (nt_sequence (seq_with [A, A, A] (Some []) [(''mu1'', 1)]) ! 0)) = Some (1/4)"
    by (simp add: seq_with_def)
  have "(case Sequence_init [A, A, A] (Some []) (1/2) 1 (\<lambda>b. Some (1/4)) [(''mu1'', 1)] False
                (\<lambda>k. 0) of Inl e \<Rightarrow> e = UnboundLocalError | Inr S \<Rightarrow> False)"
    by code_simp
  then have "Sequence_init [A, A, A] (Some []) (1/2) 1 (\<lambda>b. Some (1/4)) [(''mu1'', 1)] False
                (\<lambda>k. 0) = Inl UnboundLocalError"
    by (simp split: sum.splits)
  with cs no_orf_unbound [OF cs f, of "\<lambda>k. 0" 0] show ?thesis by simp
qed

lemma noncoding_seq_raises_aux:
  "(case Sequence_init [A, A, A, A, T, G, A, A, A, T, A, G] (Some [(''+0'', [orf_at [(3, 12)]])])
           (1/2) 1 (\<lambda>b. Some (1/4)) [(''mu1'', 1)] False (\<lambda>k. 0)
    of Inl e \<Rightarrow> e = UnboundLocalError | Inr S \<Rightarrow> False)"
  by code_simp

lemma noncoding_seq_fields:
  "codons (nt_sequence noncoding_seq ! 0) = []"
  "state (nt_sequence noncoding_seq ! 0) = A"
  "pi_freq noncoding_seq A = Some (1 / 4)"
  "is_start_stop_codon noncoding_seq 0 C = Inr False"
  "is_start_stop_codon noncoding_seq 6 C = Inr False"
  by code_simp+

lemma noncoding_seq_coding_site:
  "map_sum id (\<lambda>r. rates (nt_sequence (fst r) ! 6) C)
     (set_substitution_rates noncoding_seq (\<lambda>k. 0) 6 0) = Inr (Some (Some (1 / 8)))"
  by code_simp

text \<open>
  C6 (the code fails it).  The claim: for every nucleotide and every target base \<open>b\<close>
  other than its current base whose substitution touches no START or STOP, the stored
  rate is \<open>global_rate * pi[nt.state] * (kappa if transversion else 1) * mu[cat_keys[b]]\<close>.
  For a nucleotide that lies in no ORF no rate is stored: \<open>set_substitution_rates\<close> binds
  \<open>chosen_omegas\<close> only under \<open>if nt.codons:\<close> and reads it for every target, so it
  raises \<open>UnboundLocalError\<close>.  In \<open>AAAATGAAATAG\<close> with the ORF \<open>+0 [3, 12)\<close> the first
  nucleotide has no codon and its target \<open>C\<close> touches no START or STOP: the function
  raises, and so does the constructor, as it does for \<open>AAA\<close> without any ORF.  For a
  nucleotide in an ORF (the first \<open>A\<close> of \<open>AAA\<close>, target \<open>C\<close>) the same function stores
  the claimed product, \<open>1/8\<close>.
\<close>

theorem noncoding_nucleotide_unbound:
  "codons (nt_sequence noncoding_seq ! 0) = []
   \<and> is_start_stop_codon noncoding_seq 0 C = Inr False
   \<and> set_substitution_rates noncoding_seq (\<lambda>k. 0) 0 0 = Inl UnboundLocalError
   \<and> Sequence_init [A, A, A, A, T, G, A, A, A, T, A, G] (Some [(''+0'', [orf_at [(3, 12)]])])
         (1/2) 1 (\<lambda>b. Some (1/4)) [(''mu1'', 1)] False (\<lambda>k. 0) = Inl UnboundLocalError
   \<and> Sequence_init [A, A, A] (Some []) (1/2) 1 (\<lambda>b. Some (1/4)) [(''mu1'', 1)] False (\<lambda>k. 0)
       = Inl UnboundLocalError
   \<and> is_start_stop_codon noncoding_seq 6 C = Inr False
   \<and> map_sum id (\<lambda>r. rates (nt_sequence (fst r) ! 6) C)
       (set_substitution_rates noncoding_seq (\<lambda>k. 0) 6 0) = Inr (Some (Some (1 / 8)))"
proof -
  have "set_substitution_rates noncoding_seq (\<lambda>k. 0) 0 0 = Inl UnboundLocalError"
    by (rule no_orf_unbound [of _ _ "1 / 4"]) (simp_all add: noncoding_seq_fields)
  moreover have "Sequence_init [A, A, A, A, T, G, A, A, A, T, A, G]
         (Some [(''+0'', [orf_at [(3, 12)]])])
         (1/2) 1 (\<lambda>b. Some (1/4)) [(''mu1'', 1)] False (\<lambda>k. 0) = Inl UnboundLocalError"
    using noncoding_seq_raises_aux by (simp split: sum.splits)
  ultimately show ?thesis
    using no_orf_unbound_example noncoding_seq_fields noncoding_seq_coding_site by simp
qed

section \<open>Properties: the \<open>omega\<close> record and START/STOP pairs\<close>








lemma update_fresh: "k \<notin> fst ` set d \<Longrightarrow> AList.update k v d = d @ [(k, v)]"
  by (induction d) auto

lemma chosen_omegas_step_free:
  assumes step: "chosen_omegas_step S rng nt b c (d, k) = Inr (d', k')"
    and ss: "is_start_stop_codon S nt b = Inr False"
    and tup: "orf_map (orf c) = PTuple xs"
    and fresh: "PTuple xs \<notin> fst ` set d"
  shows "\<exists>v. d' = d @ [(PTuple xs, v)] \<and> omega_entry S nt b c v"
proof -
  from step ss obtain ns where ns: "is_nonsyn S c (nt_in_pos c nt) b = Inr ns"
    and rest: "(if ns then
              ebind (randrange rng k (length (omega_values (orf c)))) (\<lambda>(omega_index, k').
              ebind (py_tuple (orf_map (orf c))) (\<lambda>key.
              ebind (dict_set d key (PNum (real omega_index))) (\<lambda>d.
                Inr (d, k'))))
            else
              ebind (dict_set d (orf_map (orf c)) PNone) (\<lambda>d. Inr (d, k))) = Inr (d', k')"
    by (auto simp: chosen_omegas_step_def Let_def ebind_Inr)
  show ?thesis
  proof (cases ns)
    case True
    with rest obtain i k1 where r: "randrange rng k (length (omega_values (orf c))) = Inr (i, k1)"
      and set: "dict_set d (PTuple xs) (PNum (real i)) = Inr d'"
      by (auto simp: ebind_Inr py_tuple_def tup)
    from r have "i < length (omega_values (orf c))"
      by (auto simp: randrange_def split: if_splits)
    moreover from set fresh have "d' = d @ [(PTuple xs, PNum (real i))]"
      by (auto simp: dict_set_def update_fresh split: if_splits)
    ultimately show ?thesis using ns True
      by (auto simp: omega_entry_def list_ex_iff)
  next
    case False
    with rest fresh have "d' = d @ [(PTuple xs, PNone)]"
      by (auto simp: ebind_Inr dict_set_def tup update_fresh split: if_splits)
    then show ?thesis using ns False by (simp add: omega_entry_def)
  qed
qed

lemma chosen_omegas_loop_free:
  assumes "efold (chosen_omegas_step S rng nt b) cs (d0, k0) = Inr (d, k)"
    and ss: "is_start_stop_codon S nt b = Inr False"
    and "\<forall>c \<in> set cs. \<exists>xs. orf_map (orf c) = PTuple xs"
    and "distinct (map (\<lambda>c. orf_map (orf c)) cs)"
    and "\<forall>c \<in> set cs. orf_map (orf c) \<notin> fst ` set d0"
  shows "\<exists>d1. d = d0 @ d1
           \<and> list_all2 (\<lambda>c kv. fst kv = orf_map (orf c) \<and> omega_entry S nt b c (snd kv)) cs d1"
  using assms(1,3,4,5)
proof (induction cs arbitrary: d0 k0)
  case Nil
  then show ?case by simp
next
  case (Cons c cs)
  from Cons.prems(1) obtain d1 k1 where
    step: "chosen_omegas_step S rng nt b c (d0, k0) = Inr (d1, k1)"
    and rest: "efold (chosen_omegas_step S rng nt b) cs (d1, k1) = Inr (d, k)"
    by (auto split: sum.splits)
  from Cons.prems(2) obtain xs where tup: "orf_map (orf c) = PTuple xs" by auto
  from Cons.prems(4) tup have fresh: "PTuple xs \<notin> fst ` set d0" by auto
  from chosen_omegas_step_free [OF step ss tup fresh] obtain v where
    d1: "d1 = d0 @ [(PTuple xs, v)]" and entry: "omega_entry S nt b c v" by blast
  have "\<forall>c' \<in> set cs. orf_map (orf c') \<notin> fst ` set d1"
    using Cons.prems(3,4) tup by (fastforce simp: d1 image_iff)
  with Cons.IH [OF rest] Cons.prems(2,3) obtain d2 where
    d: "d = d1 @ d2"
    and all: "list_all2 (\<lambda>c kv. fst kv = orf_map (orf c) \<and> omega_entry S nt b c (snd kv)) cs d2"
    by auto
  have "d = d0 @ ((PTuple xs, v) # d2)" by (simp add: d d1)
  moreover have "list_all2 (\<lambda>c kv. fst kv = orf_map (orf c) \<and> omega_entry S nt b c (snd kv))
                   (c # cs) ((PTuple xs, v) # d2)"
    using all entry tup by simp
  ultimately show ?case by blast
qed

text \<open>What \<open>set_substitution_rates\<close> stores as \<open>omega_keys[b]\<close> is the dictionary
  \<open>chosen_omegas\<close> of the passage for \<open>b\<close>.\<close>

lemma stored_omega:
  assumes e: "set_substitution_rates S rng nt k = Inr (S', k')"
    and l: "nt < length (nt_sequence S)"
    and b: "b \<noteq> state (nt_sequence S ! nt)"
    and cs: "codons (nt_sequence S ! nt) \<noteq> []"
  obtains d k0 k1 where
    "omega_keys (nt_sequence S' ! nt) b = Some (PDict d)"
    "efold (chosen_omegas_step S rng nt b) (codons (nt_sequence S ! nt)) ([], k0) = Inr (d, k1)"
proof -
  from e l obtain acc where
    loop: "efold (rates_step S rng nt) NUCLEOTIDES
             \<lparr> sub_rates = Map.empty, selected_omega = Map.empty, my_cat_keys = Map.empty,
               chosen_omegas = None, rng_pos = k \<rparr> = Inr acc"
    and o: "omega_keys (nt_sequence S' ! nt) = selected_omega acc"
    by (rule set_substitution_rates_result)
  from loop obtain a1 a2 where stepb: "rates_step S rng nt b a1 = Inr a2"
    and keep: "selected_omega acc b = selected_omega a2 b"
    by (rule rates_loop_at)
  from stepb b obtain f d j cat mu where
    lp: "if codons (nt_sequence S ! nt) \<noteq> []
     then efold (chosen_omegas_step S rng nt b) (codons (nt_sequence S ! nt))
            ([], rng_pos a1) = Inr (d, j)
     else chosen_omegas a1 = Some d \<and> j = rng_pos a1"
    and a2: "a2 = \<lparr> sub_rates = (sub_rates a1)(b \<mapsto>
                 Some ((if is_transv (state (nt_sequence S ! nt)) b = Some True
                        then global_rate S * f * kappa S else global_rate S * f) * mu)),
              selected_omega = (selected_omega a1)(b \<mapsto> PDict d),
              my_cat_keys = (my_cat_keys a1)(b \<mapsto> cat),
              chosen_omegas = Some d, rng_pos = Suc j \<rparr>"
    by (rule rates_step_result)
  show thesis
    by (rule that [of d "rng_pos a1" j]) (use lp cs in \<open>simp_all add: o keep a2\<close>)
qed

text \<open>With tuples as ORF maps, one per ORF, the dictionary has one entry per containing
  ORF: the drawn index into the ORF's \<open>omega_values\<close> for a non-synonymous change, \<open>None\<close>
  for a synonymous one.\<close>

lemma stored_omega_entries:
  assumes "set_substitution_rates S rng nt k = Inr (S', k')"
    and "nt < length (nt_sequence S)"
    and "b \<noteq> state (nt_sequence S ! nt)"
    and "codons (nt_sequence S ! nt) \<noteq> []"
    and "is_start_stop_codon S nt b = Inr False"
    and "\<forall>c \<in> set (codons (nt_sequence S ! nt)). \<exists>xs. orf_map (orf c) = PTuple xs"
    and "distinct (map (\<lambda>c. orf_map (orf c)) (codons (nt_sequence S ! nt)))"
  shows "\<exists>d. omega_keys (nt_sequence S' ! nt) b = Some (PDict d)
           \<and> list_all2 (\<lambda>c kv. fst kv = orf_map (orf c) \<and> omega_entry S nt b c (snd kv))
                (codons (nt_sequence S ! nt)) d"
proof -
  from assms(1-4) obtain d k0 k1 where
    o: "omega_keys (nt_sequence S' ! nt) b = Some (PDict d)"
    and lp: "efold (chosen_omegas_step S rng nt b) (codons (nt_sequence S ! nt)) ([], k0)
               = Inr (d, k1)"
    by (rule stored_omega)
  from chosen_omegas_loop_free [OF lp assms(5,6,7)] o show ?thesis by simp
qed

text \<open>Whatever \<open>set_substitution_rates\<close> stores for a nucleotide in an ORF, it is not the
  tuple of one-hot vectors.\<close>

lemma stored_omega_no_signature:
  assumes "set_substitution_rates S rng nt k = Inr (S', k')"
    and "nt < length (nt_sequence S)"
    and "b \<noteq> state (nt_sequence S ! nt)"
    and "codons (nt_sequence S ! nt) \<noteq> []"
  shows "\<exists>v. omega_keys (nt_sequence S' ! nt) b = Some v \<and> \<not> spec_omega_signature S nt b v"
proof -
  from assms obtain d k0 k1 where "omega_keys (nt_sequence S' ! nt) b = Some (PDict d)"
    by (rule stored_omega)
  then show ?thesis by (simp add: spec_omega_signature_def)
qed

lemma stored_records:
  "map_sum id (\<lambda>r. omega_keys (nt_sequence (fst r) ! 3) C)
     (set_substitution_rates trivial_orf_seq (\<lambda>k. 0) 3 0)
     = Inr (Some (PDict [(PTuple [PNum 1], PNum 0)]))"
  "map_sum id (\<lambda>r. omega_keys (nt_sequence (fst r) ! 5) G)
     (set_substitution_rates trivial_orf_seq (\<lambda>k. 0) 5 0)
     = Inr (Some (PDict [(PTuple [PNum 1], PNone)]))"
  "is_start_stop_codon trivial_orf_seq 3 C = Inr False"
  "is_start_stop_codon trivial_orf_seq 5 G = Inr False"
  "map (codon_str trivial_orf_seq) (codons (nt_sequence trivial_orf_seq ! 3)) = [[A, A, A]]"
  by code_simp+

lemma record_signatures:
  "\<not> spec_omega_signature trivial_orf_seq 3 C (PDict [(PTuple [PNum 1], PNum 0)])"
  "\<not> spec_omega_signature trivial_orf_seq 5 G (PDict [(PTuple [PNum 1], PNone)])"
  "spec_omega_signature trivial_orf_seq 3 C (PTuple [one_hot 4 0])"
  "spec_omega_signature trivial_orf_seq 5 G (PTuple [one_hot 4 3])"
  by code_simp+

lemma dict_record_raises_aux:
  "(case nt_in_event_tree_step
           (with_omega_key 3 C (PDict [(PTuple [PNum 1], PNum 0)]) ''mu1''
              (with_layout_tree [] trivial_orf_seq)) 3 C
           (heap (with_layout_tree [] trivial_orf_seq), Map.empty, [])
    of Inl e \<Rightarrow> e = TypeError | Inr st \<Rightarrow> False)"
  by code_simp

lemma one_hot_record_inserted:
  "ebind (nt_in_event_tree_step
            (with_omega_key 3 C (PTuple [one_hot 4 0]) ''mu1''
               (with_layout_tree [] trivial_orf_seq)) 3 C
            (heap (with_layout_tree [] trivial_orf_seq), Map.empty, []))
     (\<lambda>st. leaf_nts (with_layout_tree [] trivial_orf_seq) (fst st) C A ''mu1''
              (PTuple [one_hot 4 0]))
     = Inr [PNuc 3]"
  by code_simp

text \<open>
  C2 (the code fails it).  The claim: the \<open>omega\<close> record stored for a nucleotide in an
  ORF and an admissible target is a tuple with one slot per containing ORF, each slot a
  one-hot vector of length (number of \<open>omega\<close> classes + 1).  \<open>set_substitution_rates\<close>
  stores the dictionary \<open>chosen_omegas\<close> instead.  In \<open>ATGAAATAG\<close> with the ORF
  \<open>+0 [0, 9)\<close>, whose \<open>orf_map\<close> is \<open>(1,)\<close> and which has three \<open>omega\<close> classes: for the
  first \<open>A\<close> of \<open>AAA\<close> and the target \<open>C\<close> (non-synonymous, index 0 drawn) the record is
  \<open>{(1,): 0}\<close> where the claim has \<open>((1, 0, 0, 0),)\<close>; for the last \<open>A\<close> and the target
  \<open>G\<close> (synonymous) it is \<open>{(1,): None}\<close> where the claim has \<open>((0, 0, 0, 1),)\<close>.  The
  reader of the record needs what the claim says: on a tree in the layout it reads,
  \<open>nt_in_event_tree\<close> raises \<open>TypeError\<close> for the dictionary (\<open>omega_cat in cat_branch\<close>
  hashes it) and puts the nucleotide in the leaf of the one-hot tuple.
\<close>

theorem omega_record_not_one_hot:
  "map_sum id (\<lambda>r. omega_keys (nt_sequence (fst r) ! 3) C)
     (set_substitution_rates trivial_orf_seq (\<lambda>k. 0) 3 0)
     = Inr (Some (PDict [(PTuple [PNum 1], PNum 0)]))
   \<and> map_sum id (\<lambda>r. omega_keys (nt_sequence (fst r) ! 5) G)
       (set_substitution_rates trivial_orf_seq (\<lambda>k. 0) 5 0)
       = Inr (Some (PDict [(PTuple [PNum 1], PNone)]))
   \<and> is_start_stop_codon trivial_orf_seq 3 C = Inr False
   \<and> is_start_stop_codon trivial_orf_seq 5 G = Inr False
   \<and> spec_omega_signature trivial_orf_seq 3 C (PDict [(PTuple [PNum 1], PNum 0)]) = False
   \<and> spec_omega_signature trivial_orf_seq 5 G (PDict [(PTuple [PNum 1], PNone)]) = False
   \<and> spec_omega_signature trivial_orf_seq 3 C
       (PTuple [PTuple [PNum 1, PNum 0, PNum 0, PNum 0]]) = True
   \<and> spec_omega_signature trivial_orf_seq 5 G
       (PTuple [PTuple [PNum 0, PNum 0, PNum 0, PNum 1]]) = True
   \<and> nt_in_event_tree_step
         (with_omega_key 3 C (PDict [(PTuple [PNum 1], PNum 0)]) ''mu1''
            (with_layout_tree [] trivial_orf_seq)) 3 C
         (heap (with_layout_tree [] trivial_orf_seq), Map.empty, []) = Inl TypeError
   \<and> ebind (nt_in_event_tree_step
              (with_omega_key 3 C (PTuple [PTuple [PNum 1, PNum 0, PNum 0, PNum 0]]) ''mu1''
                 (with_layout_tree [] trivial_orf_seq)) 3 C
              (heap (with_layout_tree [] trivial_orf_seq), Map.empty, []))
       (\<lambda>st. leaf_nts (with_layout_tree [] trivial_orf_seq) (fst st) C A ''mu1''
                (PTuple [PTuple [PNum 1, PNum 0, PNum 0, PNum 0]]))
       = Inr [PNuc 3]"
proof -
  have oh: "one_hot 4 0 = PTuple [PNum 1, PNum 0, PNum 0, PNum 0]"
    "one_hot 4 3 = PTuple [PNum 0, PNum 0, PNum 0, PNum 1]"
    by code_simp+
  have "nt_in_event_tree_step
         (with_omega_key 3 C (PDict [(PTuple [PNum 1], PNum 0)]) ''mu1''
            (with_layout_tree [] trivial_orf_seq)) 3 C
         (heap (with_layout_tree [] trivial_orf_seq), Map.empty, []) = Inl TypeError"
    using dict_record_raises_aux by (simp split: sum.splits)
  then show ?thesis
    using stored_records(1-4) record_signatures one_hot_record_inserted
    by (simp only: oh simp_thms)
qed




section \<open>Properties: the event tree\<close>

text \<open>The triplets the codon model reads in a negative-strand ORF are the triples of the
  reversed list of states; no state is complemented.\<close>

lemma map_triples: "map (map f) (triples xs) = triples (map f xs)"
  by (induction xs rule: triples.induct) simp_all

lemma negative_strand_reversed:
  assumes "startswith frm CHR ''-''" and "find_codons S frm orf_i = Inr cs"
  shows "map (codon_str S) cs
           = triples (rev (map (\<lambda>p. state (nt_sequence S ! p)) (spliced_cds S orf_i)))"
proof -
  from assms have cs: "cs = map (\<lambda>t. \<lparr> frame = frm, orf = orf_i, nts_in_codon = t \<rparr>)
                              (triples (rev (spliced_cds S orf_i)))"
    by (simp add: find_codons_def Let_def)
  have "map (codon_str S) cs
          = map (map (\<lambda>p. state (nt_sequence S ! p))) (triples (rev (spliced_cds S orf_i)))"
    by (simp add: cs codon_str_def comp_def)
  then show ?thesis by (simp add: map_triples rev_map)
qed

text \<open>
  C8 (the code fails it).  The claim: for a negative-strand ORF the triplets that the codon
  model evaluates are the reverse complement of the genomic subsequence.  \<open>find_codons\<close>
  reverses the nucleotides and the codon model reads their states, never their
  complements: for the ORF \<open>-0 [0, 9)\<close> of \<open>TTATTTCAT\<close> the codon model sees
  \<open>TAC TTT ATT\<close>, the reverse complement is \<open>ATG AAA TAA\<close>, and neither the START nor the
  STOP of the ORF is recognised.
\<close>

theorem negative_strand_codons_not_complemented:
  "map (codon_str reverse_orf_seq) (codons_all reverse_orf_seq) = [[T, A, C], [T, T, T], [A, T, T]]
   \<and> triples (complement [T, T, A, T, T, T, C, A, T] True) = [[A, T, G], [A, A, A], [T, A, A]]
   \<and> map (is_start reverse_orf_seq) (codons_all reverse_orf_seq) = [Inr False, Inr False, Inr False]
   \<and> map (is_stop reverse_orf_seq) (codons_all reverse_orf_seq) = [False, False, False]"
  by code_simp

lemma constructor_raises_aux:
  "(case Sequence_init [A, T, G, A, A, A, T, A, G] (Some [(''+0'', [orf_at [(0, 9)]])]) (1/2) 1
           (\<lambda>b. Some (1/4)) [(''mu1'', 1)] False (\<lambda>k. 0)
    of Inl e \<Rightarrow> e = KeyError | Inr S \<Rightarrow> False)"
  by code_simp

lemma layout_raises_aux:
  "(case init_nt_step (\<lambda>k. 0) 3 (with_layout_tree [] trivial_orf_seq, 0)
    of Inl e \<Rightarrow> e = TypeError | Inr r \<Rightarrow> False)"
  by code_simp

text \<open>
  C1 (the code fails it).  The claim: after a \<open>Sequence\<close> is constructed, the numbers of
  nucleotides in the leaves of the event tree add up to the number of admissible (site,
  target base) pairs.  For \<open>ATGAAATAG\<close> with the ORF \<open>+0 [0, 9)\<close>, which has eight
  admissible pairs, the constructor raises \<open>KeyError\<close> at the first of them: the tree of
  \<open>create_event_tree\<close> has no key \<open>'category'\<close> where \<open>nt_in_event_tree\<close> looks it up.
  On a tree in the layout \<open>nt_in_event_tree\<close> reads, the same step raises \<open>TypeError\<close>:
  the key it hashes is the dictionary that \<open>set_substitution_rates\<close> stored.
\<close>

theorem constructor_raises:
  "Sequence_init [A, T, G, A, A, A, T, A, G] (Some [(''+0'', [orf_at [(0, 9)]])]) (1/2) 1
       (\<lambda>b. Some (1/4)) [(''mu1'', 1)] False (\<lambda>k. 0) = Inl KeyError
   \<and> length (admissible_pairs trivial_orf_seq) = 8
   \<and> init_nt_step (\<lambda>k. 0) 3 (with_layout_tree [] trivial_orf_seq, 0) = Inl TypeError"
proof -
  have "length (admissible_pairs trivial_orf_seq) = 8" by code_simp
  with constructor_raises_aux layout_raises_aux show ?thesis
    by (simp split: sum.splits)
qed

lemma built_tree_raises_aux:
  "(case compute_probability
           (before_rates (seq_with [A, T, G, A, A, A, T, A, G] (Some [(''+0'', [orf_at [(0, 9)]])])
                            [(''mu1'', 1)]))
    of Inl e \<Rightarrow> e = KeyError | Inr S \<Rightarrow> False)"
  by code_simp

lemma built_tree_raises:
  "compute_probability
     (before_rates (seq_with [A, T, G, A, A, A, T, A, G] (Some [(''+0'', [orf_at [(0, 9)]])])
                      [(''mu1'', 1)])) = Inl KeyError"
  using built_tree_raises_aux by (simp split: sum.splits)

lemma shared_branch_aux:
  "(case compute_probability (before_rates (seq_with [] (Some []) [(''mu1'', 1)]))
    of Inl e \<Rightarrow> e = KeyError | Inr S \<Rightarrow> False)"
  by code_simp

lemma shared_branch_probs:
  "ebind (compute_probability (before_rates (seq_with [] (Some []) [])))
          (\<lambda>S. Inr (from_probs S A, from_probs S C, from_probs S G, from_probs S T))
     = Inr ([Inr (PNum 1), Inr (PNum 1), Inr (PNum 1)], [Inr (PNum 1), Inr (PNum 1), Inr (PNum 1)],
            [Inr (PNum 1), Inr (PNum 1), Inr (PNum 1)], [Inr (PNum 1), Inr (PNum 1), Inr (PNum 1)])"
  by code_simp

lemma layout_branch_probs:
  "ebind (compute_probability (with_layout_tree [] (seq_with [] (Some []) [(''mu1'', 1)])))
          (\<lambda>S. Inr (from_probs S A))
     = Inr [Inr (PNum (1/4)), Inr (PNum (1/2)), Inr (PNum (1/4))]"
  by code_simp

text \<open>
  C7 (the code fails it).  The claim: after \<open>compute_probability\<close> the from-base node
  under a to-base carries \<open>prob = kappa/(1 + 2 kappa)\<close> for a transversion and
  \<open>1/(1 + 2 kappa)\<close> for a transition.  In the tree of \<open>create_event_tree\<close> the twelve
  nodes are one dictionary: with \<open>kappa = 1/2\<close> and no rate category every node reads
  \<open>prob = 1\<close> (the sum \<open>1/4 + 1/2 + 1/4\<close> of the last to-base), and with a rate category
  \<open>compute_probability\<close> raises \<open>KeyError\<close>, as it does on the tree built for
  \<open>ATGAAATAG\<close>.  On a tree whose nodes are objects of their own the same function stores
  \<open>1/4\<close>, \<open>1/2\<close>, \<open>1/4\<close>, as the claim says.
\<close>

theorem from_base_probabilities_shared:
  "ebind (compute_probability (before_rates (seq_with [] (Some []) [])))
          (\<lambda>S. Inr (from_probs S A, from_probs S C, from_probs S G, from_probs S T))
     = Inr ([Inr (PNum 1), Inr (PNum 1), Inr (PNum 1)], [Inr (PNum 1), Inr (PNum 1), Inr (PNum 1)],
            [Inr (PNum 1), Inr (PNum 1), Inr (PNum 1)], [Inr (PNum 1), Inr (PNum 1), Inr (PNum 1)])
   \<and> compute_probability (before_rates (seq_with [] (Some []) [(''mu1'', 1)])) = Inl KeyError
   \<and> compute_probability
       (before_rates (seq_with [A, T, G, A, A, A, T, A, G] (Some [(''+0'', [orf_at [(0, 9)]])])
                        [(''mu1'', 1)])) = Inl KeyError
   \<and> ebind (compute_probability (with_layout_tree [] (seq_with [] (Some []) [(''mu1'', 1)])))
          (\<lambda>S. Inr (from_probs S A))
     = Inr [Inr (PNum (1/4)), Inr (PNum (1/2)), Inr (PNum (1/4))]"
  using shared_branch_aux shared_branch_probs layout_branch_probs built_tree_raises
  by (simp split: sum.splits)

lemma leaf_probs:
  "ebind (compute_probability
            ((with_layout_tree [syn_sig, nonsyn_sig] (seq_with [] (Some []) [(''mu1'', 1)]))
               \<lparr> total_omegas := [(nonsyn_sig, 1/2)] \<rparr>))
          (\<lambda>S. Inr (leaf_prob S A C ''mu1'' syn_sig, leaf_prob S A C ''mu1'' nonsyn_sig))
     = Inr (Inr (PNum 1), Inr (PNum (1/3)))"
  by code_simp

lemma omega_prob_values:
  "omega_prob [] [(nonsyn_sig, 1/2)] syn_sig = Inr 1"
  "omega_prob [] [(nonsyn_sig, 1/2)] nonsyn_sig = Inr (1/3)"
  "omega_prob [] [(nonsyn2_sig, 1/2)] nonsyn2_sig = Inr (1/27)"
  "omega_prob [] [(nonsyn_sig, 1/2)] (PTuple []) = Inr 1"
  "omega_prob [] [] nonsyn_sig = Inl KeyError"
  by code_simp+

text \<open>
  C3 (the code fails it).  The claim: after \<open>compute_probability\<close> a leaf carries
  \<open>prob = 1/denom\<close> when every slot of its signature is synonymous (or there is no slot)
  and \<open>prob = total_omegas[signature]/denom\<close> when a slot is non-synonymous, with
  \<open>denom = 1 + sum(total_omegas.values())\<close>.  With \<open>total_omegas = {nonsyn_sig: 1/2}\<close>,
  so \<open>denom = 3/2\<close>: the synonymous leaf gets \<open>1\<close>, not \<open>2/3\<close>, and so does the empty
  signature; the leaf with one non-synonymous slot gets \<open>1/3\<close>, as claimed; a signature
  with two non-synonymous slots gets \<open>(1/3)^3\<close>, not \<open>1/3\<close>; and a non-synonymous
  signature that is not in \<open>total_omegas\<close> raises \<open>KeyError\<close>.  On the tree built for
  \<open>ATGAAATAG\<close> the function raises \<open>KeyError\<close> before it reaches a leaf.
\<close>

theorem omega_leaf_probabilities:
  "ebind (compute_probability
            ((with_layout_tree [syn_sig, nonsyn_sig] (seq_with [] (Some []) [(''mu1'', 1)]))
               \<lparr> total_omegas := [(nonsyn_sig, 1/2)] \<rparr>))
          (\<lambda>S. Inr (leaf_prob S A C ''mu1'' syn_sig, leaf_prob S A C ''mu1'' nonsyn_sig))
     = Inr (Inr (PNum 1), Inr (PNum (1/3)))
   \<and> omega_prob [] [(nonsyn_sig, 1/2)] syn_sig = Inr 1
   \<and> omega_prob [] [(nonsyn_sig, 1/2)] (PTuple []) = Inr 1
   \<and> omega_prob [] [(nonsyn_sig, 1/2)] nonsyn_sig = Inr (1/3)
   \<and> omega_prob [] [(nonsyn2_sig, 1/2)] nonsyn2_sig = Inr (1/27)
   \<and> omega_prob [] [] nonsyn_sig = Inl KeyError
   \<and> compute_probability
       (before_rates (seq_with [A, T, G, A, A, A, T, A, G] (Some [(''+0'', [orf_at [(0, 9)]])])
                        [(''mu1'', 1)])) = Inl KeyError"
  using leaf_probs omega_prob_values built_tree_raises by simp

text \<open>No function that the constructor calls writes \<open>total_omegas\<close>.\<close>

lemma total_omegas_unwritten:
  "(set_substitution_rates S rng nt k = Inr (S1, k1) \<longrightarrow> total_omegas S1 = total_omegas S)
   \<and> (nt_in_event_tree S nt = Inr (S2, new_key) \<longrightarrow> total_omegas S2 = total_omegas S)
   \<and> (compute_probability S = Inr S3 \<longrightarrow> total_omegas S3 = total_omegas S)
   \<and> (count_events_per_layer S = Inr S4 \<longrightarrow> total_omegas S4 = total_omegas S)"
proof -
  have "total_omegas S1 = total_omegas S" if "set_substitution_rates S rng nt k = Inr (S1, k1)"
    using that unfolding set_substitution_rates_def Let_def by (auto elim!: ebind_InrE)
  moreover have "total_omegas S2 = total_omegas S" if "nt_in_event_tree S nt = Inr (S2, new_key)"
    using that unfolding nt_in_event_tree_def by (auto elim!: ebind_InrE)
  moreover have "total_omegas S3 = total_omegas S" if "compute_probability S = Inr S3"
    using that unfolding compute_probability_def
    by (cases "efold (cp_to_step S) NUCLEOTIDES (heap S)") auto
  moreover have "total_omegas S4 = total_omegas S" if "count_events_per_layer S = Inr S4"
    using that unfolding count_events_per_layer_def
    by (cases "efold (ce_to_step S) NUCLEOTIDES (heap S)") auto
  ultimately show ?thesis by blast
qed

text \<open>
  C4 (the code fails it).  The claim: after construction \<open>total_omegas\<close> holds an entry
  for every signature of the event tree that has a non-synonymous slot.  The only function
  that writes \<open>total_omegas\<close> is \<open>set_total_omegas\<close>, and its one call is commented out:
  after \<open>set_substitution_rates\<close> has drawn an \<open>omega\<close> index for the non-synonymous
  change \<open>AAA \<rightarrow> CAA\<close>, \<open>total_omegas\<close> is still empty.
\<close>

theorem total_omegas_stays_empty:
  "map_sum id (\<lambda>r. (omega_keys (nt_sequence (fst r) ! 3) C, total_omegas (fst r)))
     (set_substitution_rates trivial_orf_seq (\<lambda>k. 0) 3 0)
     = Inr (Some (PDict [(PTuple [PNum 1], PNum 0)]), [])"
  by code_simp

end
